theory Spec2Isabelle
  imports Main
begin

section \<open>Authenticated DNS resolution (internal/dns/dnssec.go)\<close>

subsection \<open>Data of the DNS library, as far as the resolver reads or writes it\<close>

text \<open>
  \<open>net.IP\<close> is a byte slice. A resource record of the answer section is one of the
  library's record structs; the resolver tells them apart by a type assertion, so they
  are the constructors of one datatype (\<open>Other_RR\<close> stands for every record type the
  resolver never asks for, \<open>OPT_RR\<close> is the EDNS0 pseudo record of \<open>SetEdns0\<close>).
\<close>

type_synonym IP = "nat list"

datatype TLSA = TLSA (Usage: nat) (Selector: nat) (MatchingType: nat) (Certificate: string)

datatype MX = MX (Host: string) (Pref: nat)

datatype RR =
    PTR_RR string
  | A_RR IP
  | AAAA_RR IP
  | MX_RR string nat
  | TXT_RR "string list"
  | TLSA_RR TLSA
  | OPT_RR nat bool
  | Other_RR nat

record Question =
  QName :: string
  Qtype :: nat

record Msg =
  Rcode :: int
  AuthenticatedData :: bool
  RecursionDesired :: bool
  Question :: "Question list"
  Answer :: "RR list"
  Extra :: "RR list"

text \<open>The RCODE and record type numbers of the DNS library (RFC 1035, RFC 6698).\<close>

definition RcodeSuccess :: int where "RcodeSuccess = 0"
definition RcodeFormatError :: int where "RcodeFormatError = 1"
definition RcodeServerFailure :: int where "RcodeServerFailure = 2"
definition RcodeNameError :: int where "RcodeNameError = 3"
definition RcodeNotImplemented :: int where "RcodeNotImplemented = 4"
definition RcodeRefused :: int where "RcodeRefused = 5"

definition TypeA :: nat where "TypeA = 1"
definition TypePTR :: nat where "TypePTR = 12"
definition TypeMX :: nat where "TypeMX = 15"
definition TypeTXT :: nat where "TypeTXT = 16"
definition TypeAAAA :: nat where "TypeAAAA = 28"
definition TypeTLSA :: nat where "TypeTLSA = 52"

subsection \<open>Errors\<close>

text \<open>
  \<open>RCodeError\<close> is the resolver's own error struct. A Go \<open>error\<close> value is one of
  the dynamic types the code distinguishes: an \<open>RCodeError\<close>, a \<open>*net.DNSError\<close>
  (its message and its \<open>IsNotFound\<close> field), the error of a cancelled context, one of
  the three error types of the DKIM library (a permanent failure, a temporary failure, a
  plain failure, each a string), or any other error, given by its message (a transport
  failure, a malformed lookup subject, an I/O error). The nil error is \<open>None\<close>.
\<close>

datatype RCodeError = RCodeError (Name: string) (Code: int)

datatype error =
    RCodeErr RCodeError
  | DNSError string bool
  | ContextCanceled
  | OtherError string
  | permFailError string
  | tempFailError string
  | failError string

definition Temporary :: "RCodeError \<Rightarrow> bool" where
  "Temporary err = (Code err = RcodeServerFailure)"

fun IsNotFound :: "error option \<Rightarrow> bool" where
  "IsNotFound (Some (DNSError m nf)) = nf"
| "IsNotFound (Some (RCodeErr rcodeErr)) = (Code rcodeErr = RcodeNameError)"
| "IsNotFound _ = False"

text \<open>\<open>strconv.Itoa\<close>: the decimal digits, after a minus sign for a negative number.\<close>

fun digits :: "nat \<Rightarrow> string" where
  "digits n =
     (if n < 10 then [char_of (48 + n)] else digits (n div 10) @ [char_of (48 + n mod 10)])"

definition Itoa :: "int \<Rightarrow> string" where
  "Itoa i = (if i < 0 then ''-'' @ digits (nat (- i)) else digits (nat i))"

definition RCodeError_Error :: "RCodeError \<Rightarrow> string" where
  "RCodeError_Error err =
     (if Code err = RcodeFormatError then ''dns: rcode FORMERR when looking up '' @ Name err
      else if Code err = RcodeServerFailure then ''dns: rcode SERVFAIL when looking up '' @ Name err
      else if Code err = RcodeNameError then ''dns: rcode NXDOMAIN when looking up '' @ Name err
      else if Code err = RcodeNotImplemented then ''dns: rcode NOTIMP when looking up '' @ Name err
      else if Code err = RcodeRefused then ''dns: rcode REFUSED when looking up '' @ Name err
      else ''dns: non-success rcode: '' @ Itoa (Code err) @ '' when looking up '' @ Name err)"

text \<open>
  The \<open>Error()\<close> method: the resolver's own for an \<open>RCodeError\<close>; the DKIM library
  puts \<open>dkim: \<close> before the text of its three error types; an error of another package
  has the message it carries.
\<close>

fun Error :: "error \<Rightarrow> string" where
  "Error (RCodeErr err) = RCodeError_Error err"
| "Error (DNSError m nf) = m"
| "Error ContextCanceled = ''context canceled''"
| "Error (OtherError m) = m"
| "Error (permFailError m) = ''dkim: '' @ m"
| "Error (tempFailError m) = ''dkim: '' @ m"
| "Error (failError m) = ''dkim: '' @ m"

subsection \<open>What the resolver is given: the client, the configuration, library functions\<close>

text \<open>
  \<open>Client.ExchangeContext\<close> is the network: for a query and a server address it either
  fails with an error (possibly next to a partial response, which the loop stores in
  \<open>resp\<close> without looking at it) or delivers a response. The caller's context is part of
  that behaviour: the resolver hands it to every exchange and never looks at it, so
  what a cancelled context does to an exchange is the library's matter, and a theorem
  that holds for every client holds whatever that is. The resolver holds such a client
  and the configuration of \<open>/etc/resolv.conf\<close>, of which it reads the server list and
  the port.
\<close>

datatype exch = Failed "Msg option" error | Replied Msg

record ClientConfig =
  Servers :: "string list"
  Port :: string

record ExtResolver =
  cl :: "Msg \<Rightarrow> string \<Rightarrow> exch"
  Cfg :: ClientConfig

text \<open>
  The functions of \<open>net\<close> and of the DNS library whose code is outside the repository
  are parameters of the model: every theorem holds for all of them.
\<close>

record Lib =
  ParseIP :: "string \<Rightarrow> IP option"
  IsLoopback :: "IP \<Rightarrow> bool"
  ReverseAddr :: "string \<Rightarrow> error + string"
  Fqdn :: "string \<Rightarrow> string"
  TLSAName :: "string \<Rightarrow> string \<Rightarrow> string \<Rightarrow> error + string"
  IPString :: "IP \<Rightarrow> string"

text \<open>\<open>net.JoinHostPort\<close>: a host with a colon is an IPv6 literal and gets brackets.\<close>

definition JoinHostPort :: "string \<Rightarrow> string \<Rightarrow> string" where
  "JoinHostPort host port =
     (if CHR '':'' \<in> set host then ''['' @ host @ '']:'' @ port else host @ '':'' @ port)"

text \<open>
  A function of the resolver either returns or panics (an index out of range, a nil
  dereference); next to that outcome the model keeps the exchanges it made with the
  network, in order, each as the query and the address it was sent to.
\<close>

datatype 'a outcome = Panics | Returns 'a

type_synonym call = "Msg \<times> string"

definition logged :: "call \<Rightarrow> 'a outcome \<times> call list \<Rightarrow> 'a outcome \<times> call list" where
  "logged c r = (fst r, c # snd r)"

subsection \<open>The fail-over loop\<close>

definition isLoopback :: "Lib \<Rightarrow> string \<Rightarrow> bool" where
  "isLoopback L addr = (case ParseIP L addr of None \<Rightarrow> False | Some ip \<Rightarrow> IsLoopback L ip)"

text \<open>
  The loop of \<open>exchange\<close> over the servers still to try, with the current values of the
  variables \<open>resp\<close> and \<open>lastErr\<close>. \<open>msg.Question[0]\<close> panics on a query without a
  question.
\<close>

fun exchange_loop ::
  "ExtResolver \<Rightarrow> Lib \<Rightarrow> Msg \<Rightarrow> string list \<Rightarrow> Msg option \<Rightarrow> error option
     \<Rightarrow> (Msg option \<times> error option) outcome \<times> call list" where
  "exchange_loop e L msg [] resp lastErr = (Returns (resp, lastErr), [])"
| "exchange_loop e L msg (srv # rest) resp lastErr =
     logged (msg, JoinHostPort srv (Port (Cfg e)))
       (case cl e msg (JoinHostPort srv (Port (Cfg e))) of
          Failed resp' err \<Rightarrow> exchange_loop e L msg rest resp' (Some err)
        | Replied resp' \<Rightarrow>
            if Rcode resp' \<noteq> RcodeSuccess then
              (case Question msg of
                 [] \<Rightarrow> (Panics, [])
               | q # _ \<Rightarrow>
                   exchange_loop e L msg rest (Some resp')
                     (Some (RCodeErr (RCodeError (QName q) (Rcode resp')))))
            else if \<not> isLoopback L srv then
              (Returns (Some (resp'\<lparr>AuthenticatedData := False\<rparr>), None), [])
            else (Returns (Some resp', None), []))"

definition exchange ::
  "ExtResolver \<Rightarrow> Lib \<Rightarrow> Msg \<Rightarrow> (Msg option \<times> error option) outcome \<times> call list" where
  "exchange e L msg = exchange_loop e L msg (Servers (Cfg e)) None None"

subsection \<open>The lookups\<close>

text \<open>
  Every lookup builds its query the same way: \<open>new(dns.Msg)\<close>, \<open>SetQuestion\<close> (one
  question, recursion desired; the random message id is left out), \<open>SetEdns0(4096,
  false)\<close> (an OPT record in the additional section) and the AD bit set.
\<close>

definition newMsg :: Msg where
  "newMsg = \<lparr>Rcode = 0, AuthenticatedData = False, RecursionDesired = False,
             Question = [], Answer = [], Extra = []\<rparr>"

definition SetQuestion :: "string \<Rightarrow> nat \<Rightarrow> Msg \<Rightarrow> Msg" where
  "SetQuestion z t m = m\<lparr>RecursionDesired := True, Question := [\<lparr>QName = z, Qtype = t\<rparr>]\<rparr>"

definition SetEdns0 :: "nat \<Rightarrow> bool \<Rightarrow> Msg \<Rightarrow> Msg" where
  "SetEdns0 udpsize do m = m\<lparr>Extra := Extra m @ [OPT_RR udpsize do]\<rparr>"

definition query :: "string \<Rightarrow> nat \<Rightarrow> Msg" where
  "query z t = (SetEdns0 4096 False (SetQuestion z t newMsg))\<lparr>AuthenticatedData := True\<rparr>"

text \<open>
  The loops over \<open>resp.Answer\<close>: a record of another type is skipped, a record of the
  expected type is appended to the result so far.
\<close>

fun appendPTR :: "string list \<Rightarrow> RR list \<Rightarrow> string list" where
  "appendPTR names [] = names"
| "appendPTR names (PTR_RR ptr # rrs) = appendPTR (names @ [ptr]) rrs"
| "appendPTR names (_ # rrs) = appendPTR names rrs"

fun appendMX :: "MX list \<Rightarrow> RR list \<Rightarrow> MX list" where
  "appendMX mxs [] = mxs"
| "appendMX mxs (MX_RR mx preference # rrs) = appendMX (mxs @ [MX mx preference]) rrs"
| "appendMX mxs (_ # rrs) = appendMX mxs rrs"

fun appendTXT :: "string list \<Rightarrow> RR list \<Rightarrow> string list" where
  "appendTXT recs [] = recs"
| "appendTXT recs (TXT_RR txt # rrs) = appendTXT (recs @ [concat txt]) rrs"
| "appendTXT recs (_ # rrs) = appendTXT recs rrs"

fun appendAAAA :: "IP list \<Rightarrow> RR list \<Rightarrow> IP list" where
  "appendAAAA addrs [] = addrs"
| "appendAAAA addrs (AAAA_RR ip # rrs) = appendAAAA (addrs @ [ip]) rrs"
| "appendAAAA addrs (_ # rrs) = appendAAAA addrs rrs"

fun appendA :: "IP list \<Rightarrow> RR list \<Rightarrow> IP list" where
  "appendA addrs [] = addrs"
| "appendA addrs (A_RR ip # rrs) = appendA (addrs @ [ip]) rrs"
| "appendA addrs (_ # rrs) = appendA addrs rrs"

fun appendTLSA :: "TLSA list \<Rightarrow> RR list \<Rightarrow> TLSA list" where
  "appendTLSA recs [] = recs"
| "appendTLSA recs (TLSA_RR rr # rrs) = appendTLSA (recs @ [rr]) rrs"
| "appendTLSA recs (_ # rrs) = appendTLSA recs rrs"

text \<open>
  A lookup returns \<open>(ad, records, err)\<close>. After \<open>exchange\<close> it returns the error if
  there is one and reads \<open>resp.AuthenticatedData\<close> otherwise, which panics on a nil
  response. The PTR, MX, TXT and TLSA lookups have the same body from the call of
  \<open>exchange\<close> on, up to the loop that collects the records: it is \<open>single\<close>.
\<close>

type_synonym 'a lookup = "(bool \<times> 'a list \<times> error option) outcome \<times> call list"

definition single ::
  "ExtResolver \<Rightarrow> Lib \<Rightarrow> Msg \<Rightarrow> (RR list \<Rightarrow> 'a list) \<Rightarrow> 'a lookup" where
  "single e L msg collect =
     (case exchange e L msg of
        (Panics, calls) \<Rightarrow> (Panics, calls)
      | (Returns (resp, lastErr), calls) \<Rightarrow>
          (case lastErr of
             Some err \<Rightarrow> (Returns (False, [], Some err), calls)
           | None \<Rightarrow>
               (case resp of
                  None \<Rightarrow> (Panics, calls)
                | Some resp \<Rightarrow>
                    (Returns (AuthenticatedData resp, collect (Answer resp), None), calls))))"

definition AuthLookupAddr :: "ExtResolver \<Rightarrow> Lib \<Rightarrow> string \<Rightarrow> string lookup" where
  "AuthLookupAddr e L addr =
     (case ReverseAddr L addr of
        Inl err \<Rightarrow> (Returns (False, [], Some err), [])
      | Inr revAddr \<Rightarrow> single e L (query revAddr TypePTR) (appendPTR []))"

definition AuthLookupMX :: "ExtResolver \<Rightarrow> Lib \<Rightarrow> string \<Rightarrow> MX lookup" where
  "AuthLookupMX e L name = single e L (query (Fqdn L name) TypeMX) (appendMX [])"

definition AuthLookupTXT :: "ExtResolver \<Rightarrow> Lib \<Rightarrow> string \<Rightarrow> string lookup" where
  "AuthLookupTXT e L name = single e L (query (Fqdn L name) TypeTXT) (appendTXT [])"

definition AuthLookupIPAddr :: "ExtResolver \<Rightarrow> Lib \<Rightarrow> string \<Rightarrow> IP lookup" where
  "AuthLookupIPAddr e L host =
     (case exchange e L (query (Fqdn L host) TypeAAAA) of
        (Panics, calls) \<Rightarrow> (Panics, calls)
      | (Returns (resp, lastErr), calls) \<Rightarrow>
          (case lastErr of
             Some err \<Rightarrow> (Returns (False, [], Some err), calls)
           | None \<Rightarrow>
               (case resp of
                  None \<Rightarrow> (Panics, calls)
                | Some resp \<Rightarrow>
                    (let ad = AuthenticatedData resp;
                         addrs = appendAAAA [] (Answer resp)
                     in case exchange e L (query (Fqdn L host) TypeA) of
                          (Panics, calls') \<Rightarrow> (Panics, calls @ calls')
                        | (Returns (resp', lastErr'), calls') \<Rightarrow>
                            (case lastErr' of
                               Some err \<Rightarrow> (Returns (False, [], Some err), calls @ calls')
                             | None \<Rightarrow>
                                 (case resp' of
                                    None \<Rightarrow> (Panics, calls @ calls')
                                  | Some resp' \<Rightarrow>
                                      (Returns (ad \<and> AuthenticatedData resp',
                                                appendA addrs (Answer resp'), None),
                                       calls @ calls')))))))"

definition AuthLookupHost :: "ExtResolver \<Rightarrow> Lib \<Rightarrow> string \<Rightarrow> string lookup" where
  "AuthLookupHost e L host =
     (case AuthLookupIPAddr e L host of
        (Panics, calls) \<Rightarrow> (Panics, calls)
      | (Returns (ad, addrParsed, lastErr), calls) \<Rightarrow>
          (case lastErr of
             Some err \<Rightarrow> (Returns (False, [], Some err), calls)
           | None \<Rightarrow> (Returns (ad, map (IPString L) addrParsed, None), calls)))"

definition AuthLookupTLSA ::
  "ExtResolver \<Rightarrow> Lib \<Rightarrow> string \<Rightarrow> string \<Rightarrow> string \<Rightarrow> TLSA lookup" where
  "AuthLookupTLSA e L service network domain =
     (case TLSAName L domain service network of
        Inl err \<Rightarrow> (Returns (False, [], Some err), [])
      | Inr name \<Rightarrow> single e L (query (Fqdn L name) TypeTLSA) (appendTLSA []))"

section \<open>DKIM verification check (the check module \<open>verify_dkim\<close>)\<close>

subsection \<open>Data\<close>

text \<open>
  The result values of the authentication-results library that the check uses, and its
  DKIM result record. \<open>Verification\<close> is the verifier's outcome for one signature:
  \<open>BodyLength\<close> is negative when the signature has no body length limit, \<open>Err\<close> is
  nil for a signature that verifies.
\<close>

datatype ResultValue = ResultNone | ResultPass | ResultFail | ResultTempError | ResultPermError

record DKIMResult =
  Value :: ResultValue
  Reason :: string
  Domain :: string
  Identifier :: string

record Verification =
  Domain :: string
  Identifier :: string
  HeaderKeys :: "string list"
  BodyLength :: int
  Err :: "error option"

text \<open>
  What the check stores in the \<open>Reason\<close> of a result: an \<open>SMTPError\<close> with the fields
  \<open>Code\<close>, \<open>EnhancedCode\<close>, \<open>Message\<close>, \<open>CheckName\<close> and \<open>Err\<close>, in this
  order, or an error wrapped by \<open>WithFields\<close> and \<open>WithTemporary\<close>.
\<close>

datatype reason =
    SMTPError int "int \<times> int \<times> int" string string "error option"
  | WithFields error "(string \<times> string) list"
  | WithTemporary reason bool

record FailAction =
  Quarantine :: bool
  Reject :: bool

record CheckResult =
  Reject :: bool
  Quarantine :: bool
  Reason :: "reason option"
  AuthResult :: "DKIMResult list"

text \<open>
  The configuration of the check. \<open>requiredFields\<close> is a Go map used as a set, with
  canonical keys; the model lists its keys in the order the \<open>range\<close> loop visits them.
\<close>

record Check =
  requiredFields :: "string list"
  allowBodySubset :: bool
  brokenSigAction :: FailAction
  noSigAction :: FailAction
  failOpen :: bool

text \<open>
  The message: the header is its list of fields (key and value); the body buffer is
  what \<open>Open\<close> gives, an error or the bytes of the body. The serialisation of the header
  and the verifier are the libraries', taken as parameters. Next to its result the check
  leaves a trace: the log lines, the opening of the body and the call of the verifier
  with the bytes it is given.
\<close>

type_synonym Header = "(string \<times> string) list"

type_synonym Buffer = "error + string"

record DkimLib =
  WriteHeader :: "Header \<Rightarrow> string"
  Verify :: "string \<Rightarrow> error + Verification list"

datatype event =
    LogPrintf string
  | LogDebugf string
  | LogDebugMsg string "(string \<times> string) list"
  | BodyOpen
  | VerifyCall string

subsection \<open>Functions the check calls\<close>

text \<open>
  Modelled from the spec: \<open>FailAction.Apply\<close> (package \<open>internal/check\<close>, whose source
  is not among the files). The spec: applying an action to a result either leaves it as
  an informational record (ignore), marks it for rejection, or marks it for quarantine.
  The action's two flags are the fields \<open>CheckBody\<close> reads.
\<close>

definition Apply :: "FailAction \<Rightarrow> CheckResult \<Rightarrow> CheckResult" where
  "Apply cfa originalRes =
     originalRes\<lparr>Quarantine := FailAction.Quarantine cfa \<or> Quarantine originalRes,
                 Reject := FailAction.Reject cfa \<or> Reject originalRes\<rparr>"

text \<open>
  \<open>textproto.CanonicalMIMEHeaderKey\<close> of the Go library: a key with a byte that is not
  a header field byte is returned as it is; otherwise the first letter and every letter
  after a hyphen become upper case, the others lower case.
\<close>

definition validHeaderFieldByte :: "char \<Rightarrow> bool" where
  "validHeaderFieldByte c =
     (let n = (of_char c :: nat) in
        (48 \<le> n \<and> n \<le> 57) \<or> (65 \<le> n \<and> n \<le> 90) \<or> (97 \<le> n \<and> n \<le> 122)
        \<or> c \<in> set ''!#$%&*+-.^_`|~'' \<or> n = 39)"

fun canonicalize :: "bool \<Rightarrow> string \<Rightarrow> string" where
  "canonicalize upper [] = []"
| "canonicalize upper (c # cs) =
     (let n = (of_char c :: nat);
          c' = (if upper \<and> 97 \<le> n \<and> n \<le> 122 then char_of (n - 32)
                else if \<not> upper \<and> 65 \<le> n \<and> n \<le> 90 then char_of (n + 32)
                else c)
      in c' # canonicalize (c' = CHR ''-'') cs)"

definition CanonicalMIMEHeaderKey :: "string \<Rightarrow> string" where
  "CanonicalMIMEHeaderKey s = (if list_all validHeaderFieldByte s then canonicalize True s else s)"

text \<open>\<open>Header.Has\<close>: the header indexes its fields by canonical key.\<close>

definition Has :: "Header \<Rightarrow> string \<Rightarrow> bool" where
  "Has h k = (CanonicalMIMEHeaderKey k \<in> set (map (\<lambda>f. CanonicalMIMEHeaderKey (fst f)) h))"

definition TrimPrefix :: "string \<Rightarrow> string \<Rightarrow> string" where
  "TrimPrefix s pre = (if take (length pre) s = pre then drop (length pre) s else s)"

text \<open>
  \<open>dkim.IsPermFail\<close> and \<open>dkim.IsTempFail\<close>: a type assertion on the error, false for
  the nil error and for every other error type.
\<close>

fun IsPermFail :: "error option \<Rightarrow> bool" where
  "IsPermFail (Some (permFailError m)) = True"
| "IsPermFail _ = False"

fun IsTempFail :: "error option \<Rightarrow> bool" where
  "IsTempFail (Some (tempFailError m)) = True"
| "IsTempFail _ = False"

subsection \<open>CheckBody\<close>

text \<open>
  The loop over the required fields, on the pair of the variables \<open>val\<close> and
  \<open>reason\<close>; \<open>signedFields\<close> holds the canonical keys of the signed fields.
\<close>

fun requiredLoop ::
  "string list \<Rightarrow> string list \<Rightarrow> ResultValue \<times> string \<Rightarrow> ResultValue \<times> string" where
  "requiredLoop [] signedFields vr = vr"
| "requiredLoop (field # required) signedFields vr =
     requiredLoop required signedFields
       (if field \<notin> set signedFields then (ResultPermError, ''some header fields are not signed'')
        else vr)"

text \<open>
  The loop over the verifications, with the variables \<open>goodSigs\<close> and
  \<open>res.AuthResult\<close> and the trace so far. The loop either runs to its end (\<open>Inr\<close>) or
  returns a result from inside (\<open>Inl\<close>). The argument \<open>err\<close> is the variable \<open>err\<close>
  of \<open>CheckBody\<close>, the one \<open>dkim.Verify\<close> assigned: the source passes it, not
  \<open>verif.Err\<close>, to \<open>dkim.IsPermFail\<close> and \<open>dkim.IsTempFail\<close> and stores it in the
  \<open>Err\<close> of the 421 error.
\<close>

fun verifications_loop ::
  "Check \<Rightarrow> error option \<Rightarrow> Verification list \<Rightarrow> bool \<Rightarrow> DKIMResult list \<Rightarrow> event list
     \<Rightarrow> (CheckResult + bool \<times> DKIMResult list) \<times> event list" where
  "verifications_loop c err [] goodSigs res log = (Inr (goodSigs, res), log)"
| "verifications_loop c err (verif # rest) goodSigs res log =
     (case Err verif of
        Some verifErr \<Rightarrow>
          (let reason = TrimPrefix (Error verifErr) ''dkim: '';
               log' = (if \<not> FailAction.Reject (brokenSigAction c)
                          \<or> \<not> FailAction.Quarantine (brokenSigAction c)
                       then log @ [LogDebugMsg ''bad signature''
                              [(''domain'', Domain verif), (''identifier'', Identifier verif)]]
                       else log);
               val = (if IsPermFail err then ResultPermError else ResultFail)
           in if IsTempFail err \<and> \<not> failOpen c then
                (Inl \<lparr>Reject = True, Quarantine = False,
                      Reason = Some (SMTPError 421 (4, 7, 20)
                        ''Temporary error during DKIM verification'' ''verify_dkim'' err),
                      AuthResult = []\<rparr>, log')
              else
                verifications_loop c err rest goodSigs
                  (res @ [\<lparr>Value = (if IsTempFail err then ResultTempError else val),
                           DKIMResult.Reason = reason,
                           DKIMResult.Domain = Domain verif,
                           DKIMResult.Identifier = Identifier verif\<rparr>]) log')
      | None \<Rightarrow>
          (let log' = log @ [LogDebugMsg ''good signature''
                              [(''domain'', Domain verif), (''identifier'', Identifier verif)]];
               signedFields = map CanonicalMIMEHeaderKey (HeaderKeys verif);
               vr = requiredLoop (requiredFields c) signedFields (ResultPass, '''');
               vr' = (if BodyLength verif \<ge> 0 \<and> \<not> allowBodySubset c
                      then (ResultPermError, ''body limit it used'') else vr)
           in verifications_loop c err rest True
                (res @ [\<lparr>Value = fst vr', DKIMResult.Reason = snd vr',
                         DKIMResult.Domain = Domain verif,
                         DKIMResult.Identifier = Identifier verif\<rparr>]) log'))"

text \<open>
  \<open>CheckBody\<close>. When the loop is entered, \<open>dkim.Verify\<close> has returned without an error,
  so the variable \<open>err\<close> is nil.
\<close>

definition CheckBody :: "DkimLib \<Rightarrow> Check \<Rightarrow> Header \<Rightarrow> Buffer \<Rightarrow> CheckResult \<times> event list" where
  "CheckBody V c header body =
     (if \<not> Has header ''DKIM-Signature'' then
        (Apply (noSigAction c)
           \<lparr>Reject = False, Quarantine = False,
            Reason = Some (SMTPError 550 (5, 7, 20) ''No DKIM signatures'' ''verify_dkim'' None),
            AuthResult = [\<lparr>Value = ResultNone, DKIMResult.Reason = '''',
                           DKIMResult.Domain = '''', DKIMResult.Identifier = ''''\<rparr>]\<rparr>,
         [if FailAction.Reject (noSigAction c) \<or> FailAction.Quarantine (noSigAction c)
          then LogPrintf ''no signatures present'' else LogDebugf ''no signatures present''])
      else
        (case body of
           Inl err \<Rightarrow>
             (\<lparr>Reject = True, Quarantine = False,
               Reason = Some (WithTemporary
                 (WithFields err [(''check'', ''verify_dkim''), (''smtp_msg'', ''Internal I/O error'')])
                 True),
               AuthResult = []\<rparr>, [BodyOpen])
         | Inr bodyRdr \<Rightarrow>
             (case Verify V (WriteHeader V header @ bodyRdr) of
                Inl err \<Rightarrow>
                  (\<lparr>Reject = True, Quarantine = False,
                    Reason = Some (WithTemporary
                      (WithFields err [(''check'', ''verify_dkim''),
                                       (''smtp_msg'', ''Internal error during policy check'')])
                      True),
                    AuthResult = []\<rparr>, [BodyOpen, VerifyCall (WriteHeader V header @ bodyRdr)])
              | Inr verifications \<Rightarrow>
                  (case verifications_loop c None verifications False []
                          [BodyOpen, VerifyCall (WriteHeader V header @ bodyRdr)] of
                     (Inl rejected, log) \<Rightarrow> (rejected, log)
                   | (Inr (goodSigs, results), log) \<Rightarrow>
                       (let res = \<lparr>Reject = False, Quarantine = False, Reason = None,
                                   AuthResult = results\<rparr>
                        in if \<not> goodSigs then
                             (Apply (brokenSigAction c)
                                (res\<lparr>Reason :=
                                   Some (SMTPError 550 (5, 7, 20) ''No passing DKIM signatures''
                                           ''verify_dkim'' None)\<rparr>), log)
                           else (res, log))))))"

section \<open>Notions used to state the properties\<close>

text \<open>
  The address a server of the list is queried at; a server is unsuccessful for a query
  when its exchange fails or delivers a response with a non-success RCODE; the
  responding server of a query is the first server of the list, in order, whose exchange
  delivers a response with RCODE success, together with that response as it came from
  the wire. \<open>reportedAD\<close> is the flag a lookup reports when it returns without an error.
\<close>

definition address :: "ExtResolver \<Rightarrow> string \<Rightarrow> string" where
  "address e srv = JoinHostPort srv (Port (Cfg e))"

definition unsuccessful :: "ExtResolver \<Rightarrow> Msg \<Rightarrow> string \<Rightarrow> bool" where
  "unsuccessful e msg srv =
     (case cl e msg (address e srv) of
        Failed r err \<Rightarrow> True
      | Replied r \<Rightarrow> Rcode r \<noteq> RcodeSuccess)"

fun responder :: "ExtResolver \<Rightarrow> Msg \<Rightarrow> string list \<Rightarrow> (string \<times> Msg) option" where
  "responder e msg [] = None"
| "responder e msg (srv # rest) =
     (case cl e msg (address e srv) of
        Failed r err \<Rightarrow> responder e msg rest
      | Replied r \<Rightarrow> if Rcode r = RcodeSuccess then Some (srv, r) else responder e msg rest)"

definition reportedAD :: "'a lookup \<Rightarrow> bool option" where
  "reportedAD x = (case fst x of Returns (ad, recs, None) \<Rightarrow> Some ad | _ \<Rightarrow> None)"

subsection \<open>Example resolvers\<close>

text \<open>
  An instance of the library functions on the few addresses and names of the examples,
  and six resolvers. The first has an unreachable server, a server that answers
  SERVFAIL, a loopback server that answers with the AD bit set, and a server that is
  never reached; the second has one remote server that answers with the AD bit set; on
  the third every exchange fails with the error of a cancelled context; the fourth ends
  on a server that answers REFUSED; on the fifth every exchange times out; the last has
  no server.
\<close>

definition exampleLib :: Lib where
  "exampleLib = \<lparr>
     ParseIP = (\<lambda>s. if s = ''127.0.0.1'' then Some [127, 0, 0, 1]
                     else if s = ''192.0.2.1'' then Some [192, 0, 2, 1]
                     else if s = ''192.0.2.2'' then Some [192, 0, 2, 2] else None),
     IsLoopback = (\<lambda>ip. case ip of [a, b, c, d] \<Rightarrow> a = 127 | _ \<Rightarrow> ip = replicate 15 0 @ [1]),
     ReverseAddr = (\<lambda>s. if s = ''192.0.2.7'' then Inr ''7.2.0.192.in-addr.arpa.''
                         else Inl (OtherError ''unrecognized address'')),
     Fqdn = (\<lambda>s. if s \<noteq> [] \<and> last s = CHR ''.'' then s else s @ ''.''),
     TLSAName = (\<lambda>name service network.
                   if name \<noteq> [] \<and> last name = CHR ''.''
                   then Inr (''_'' @ service @ ''._'' @ network @ ''.'' @ name)
                   else Inl (OtherError ''dns: domain must be fully qualified'')),
     IPString = (\<lambda>ip. ''?'')\<rparr>"

definition exampleAnswer :: "RR list" where
  "exampleAnswer =
     [AAAA_RR (replicate 15 0 @ [7]), MX_RR ''mx.example.org.'' 10, A_RR [192, 0, 2, 7],
      PTR_RR ''example.org.'', TXT_RR [''v=spf1 '', ''-all''], A_RR [192, 0, 2, 8],
      TLSA_RR (TLSA 3 1 1 ''abcd'')]"

definition exampleReply :: "Msg \<Rightarrow> Msg" where
  "exampleReply msg = \<lparr>Rcode = 0, AuthenticatedData = True, RecursionDesired = True,
     Question = Question msg, Answer = exampleAnswer, Extra = []\<rparr>"

definition exampleResolver :: ExtResolver where
  "exampleResolver = \<lparr>
     cl = (\<lambda>msg addr. if addr = ''127.0.0.1:53'' then Replied (exampleReply msg)
                       else if addr = ''192.0.2.2:53'' then Replied ((exampleReply msg)\<lparr>Rcode := 2\<rparr>)
                       else Failed None (OtherError ''i/o timeout'')),
     Cfg = \<lparr>Servers = [''192.0.2.1'', ''192.0.2.2'', ''127.0.0.1'', ''192.0.2.3''], Port = ''53''\<rparr>\<rparr>"

definition remoteResolver :: ExtResolver where
  "remoteResolver = \<lparr>
     cl = (\<lambda>msg addr. if addr = ''192.0.2.1:53'' then Replied (exampleReply msg)
                       else Failed None (OtherError ''i/o timeout'')),
     Cfg = \<lparr>Servers = [''192.0.2.1''], Port = ''53''\<rparr>\<rparr>"

definition cancelledResolver :: ExtResolver where
  "cancelledResolver = \<lparr>
     cl = (\<lambda>msg addr. Failed None ContextCanceled),
     Cfg = \<lparr>Servers = [''192.0.2.1'', ''192.0.2.2''], Port = ''53''\<rparr>\<rparr>"

definition refusingResolver :: ExtResolver where
  "refusingResolver = \<lparr>
     cl = (\<lambda>msg addr. if addr = ''192.0.2.2:53'' then Replied ((exampleReply msg)\<lparr>Rcode := 5\<rparr>)
                       else Failed None (OtherError ''i/o timeout'')),
     Cfg = \<lparr>Servers = [''192.0.2.1'', ''192.0.2.2''], Port = ''53''\<rparr>\<rparr>"

definition unreachableResolver :: ExtResolver where
  "unreachableResolver = \<lparr>
     cl = (\<lambda>msg addr. Failed None (OtherError ''i/o timeout'')),
     Cfg = \<lparr>Servers = [''192.0.2.1'', ''192.0.2.2''], Port = ''53''\<rparr>\<rparr>"

definition noServers :: ExtResolver where
  "noServers = \<lparr>cl = (\<lambda>msg addr. Replied (exampleReply msg)),
                 Cfg = \<lparr>Servers = [], Port = ''53''\<rparr>\<rparr>"

subsection \<open>Example messages and configurations of the DKIM check\<close>

text \<open>
  The default configuration (required fields From and Subject, no body subset, fail
  closed, both actions without effect), the same with both actions set to reject, a
  header with and one without a signature field, a verifier that returns given
  outcomes, and the outcome of a signature of example.org that verifies, covers From
  and Subject and has no body length limit.
\<close>

definition defaultCheck :: Check where
  "defaultCheck = \<lparr>requiredFields = [''From'', ''Subject''], allowBodySubset = False,
     brokenSigAction = \<lparr>FailAction.Quarantine = False, FailAction.Reject = False\<rparr>,
     noSigAction = \<lparr>FailAction.Quarantine = False, FailAction.Reject = False\<rparr>,
     failOpen = False\<rparr>"

definition rejectingCheck :: Check where
  "rejectingCheck = defaultCheck\<lparr>
     brokenSigAction := \<lparr>FailAction.Quarantine = False, FailAction.Reject = True\<rparr>,
     noSigAction := \<lparr>FailAction.Quarantine = False, FailAction.Reject = True\<rparr>\<rparr>"

definition signedHeader :: Header where
  "signedHeader = [(''DKIM-Signature'', ''v=1; d=example.org; s=mail; h=From:Subject''),
                   (''From'', ''alice@example.org''), (''Subject'', ''hello'')]"

definition unsignedHeader :: Header where
  "unsignedHeader = [(''From'', ''alice@example.org''), (''Subject'', ''hello'')]"

definition verifierReturning :: "Verification list \<Rightarrow> DkimLib" where
  "verifierReturning vs = \<lparr>WriteHeader = (\<lambda>h. ''(header)''), Verify = (\<lambda>bytes. Inr vs)\<rparr>"

definition goodSignature :: Verification where
  "goodSignature = \<lparr>Domain = ''example.org'', Identifier = ''@example.org'',
     HeaderKeys = [''from'', ''subject''], BodyLength = - 1, Err = None\<rparr>"

section \<open>Properties of the resolver\<close>

subsection \<open>RCODE errors\<close>

text \<open>
  C9. \<open>Temporary\<close> holds of an \<open>RCodeError\<close> exactly when its code is SERVFAIL (2),
  and \<open>IsNotFound\<close> holds of an \<open>RCodeError\<close> exactly when its code is NXDOMAIN (3);
  so no RCODE is both, and every RCODE other than these two is permanent and not
  "not found".
\<close>

theorem rcode_error_classification:
  "Temporary (RCodeError n c) = (c = RcodeServerFailure)
   \<and> IsNotFound (Some (RCodeErr (RCodeError n c))) = (c = RcodeNameError)
   \<and> RcodeServerFailure = 2 \<and> RcodeNameError = 3
   \<and> \<not> (Temporary (RCodeError n c) \<and> IsNotFound (Some (RCodeErr (RCodeError n c))))"
  by (simp add: Temporary_def RcodeServerFailure_def RcodeNameError_def)

subsection \<open>The loop, server by server\<close>

lemma logged_pair [simp]: "logged c (x, cs) = (x, c # cs)"
  by (simp add: logged_def)

lemma snd_logged [simp]: "snd (logged c r) = c # snd r"
  by (simp add: logged_def)

lemma Question_query [simp]: "Question (query z t) = [\<lparr>QName = z, Qtype = t\<rparr>]"
  by (simp add: query_def SetEdns0_def SetQuestion_def newMsg_def)

lemma appendAAAA_eq: "appendAAAA acc rrs = acc @ [ip. AAAA_RR ip \<leftarrow> rrs]"
  by (induction acc rrs rule: appendAAAA.induct) simp_all

lemma appendA_eq: "appendA acc rrs = acc @ [ip. A_RR ip \<leftarrow> rrs]"
  by (induction acc rrs rule: appendA.induct) simp_all

text \<open>
  Unsuccessful servers at the head of the list are passed over, whatever \<open>resp\<close> and
  \<open>lastErr\<close> hold: the outcome is that of the first server that answers with success,
  or of the last server when there is none.
\<close>

lemma loop_first_success:
  assumes "Question msg \<noteq> []"
    and "\<forall>s\<in>set pre. unsuccessful e msg s"
    and "cl e msg (address e srv) = Replied r"
    and "Rcode r = RcodeSuccess"
  shows "exchange_loop e L msg (pre @ srv # post) resp lastErr =
           (Returns (Some (r\<lparr>AuthenticatedData := isLoopback L srv \<and> AuthenticatedData r\<rparr>), None),
            map (\<lambda>s. (msg, address e s)) (pre @ [srv]))"
  using assms
proof (induction pre arbitrary: resp lastErr)
  case Nil
  then show ?case by (simp add: address_def)
next
  case (Cons s pre)
  then show ?case
    by (cases "cl e msg (address e s)"; cases "Question msg")
       (simp_all add: address_def unsuccessful_def)
qed

lemma loop_all_fail_transport:
  assumes "Question msg \<noteq> []"
    and "\<forall>s\<in>set pre. unsuccessful e msg s"
    and "cl e msg (address e srv) = Failed r err"
  shows "exchange_loop e L msg (pre @ [srv]) resp lastErr =
           (Returns (r, Some err), map (\<lambda>s. (msg, address e s)) (pre @ [srv]))"
  using assms
proof (induction pre arbitrary: resp lastErr)
  case Nil
  then show ?case by (simp add: address_def)
next
  case (Cons s pre)
  then show ?case
    by (cases "cl e msg (address e s)"; cases "Question msg")
       (simp_all add: address_def unsuccessful_def)
qed

lemma loop_all_fail_rcode:
  assumes "Question msg = q # qs"
    and "\<forall>s\<in>set pre. unsuccessful e msg s"
    and "cl e msg (address e srv) = Replied r"
    and "Rcode r \<noteq> RcodeSuccess"
  shows "exchange_loop e L msg (pre @ [srv]) resp lastErr =
           (Returns (Some r, Some (RCodeErr (RCodeError (QName q) (Rcode r)))),
            map (\<lambda>s. (msg, address e s)) (pre @ [srv]))"
  using assms
proof (induction pre arbitrary: resp lastErr)
  case Nil
  then show ?case by (simp add: address_def)
next
  case (Cons s pre)
  then show ?case
    by (cases "cl e msg (address e s)")
       (simp_all add: address_def unsuccessful_def)
qed

lemma exchange_loop_calls:
  "map fst (snd (exchange_loop e L msg srvs resp lastErr)) =
     replicate (length (snd (exchange_loop e L msg srvs resp lastErr))) msg"
  by (induction srvs arbitrary: resp lastErr) (auto split: exch.splits list.splits)

lemma responder_Some:
  "responder e msg srvs = Some (srv, r) \<Longrightarrow>
     \<exists>pre post. srvs = pre @ srv # post \<and> (\<forall>s\<in>set pre. unsuccessful e msg s)
        \<and> cl e msg (address e srv) = Replied r \<and> Rcode r = RcodeSuccess"
proof (induction srvs)
  case Nil
  then show ?case by simp
next
  case (Cons s srvs)
  show ?case
  proof (cases "unsuccessful e msg s")
    case True
    with Cons.prems have "responder e msg srvs = Some (srv, r)"
      by (auto simp: unsuccessful_def split: exch.splits if_splits)
    from Cons.IH[OF this] obtain pre post where
      "srvs = pre @ srv # post" "\<forall>s\<in>set pre. unsuccessful e msg s"
      "cl e msg (address e srv) = Replied r" "Rcode r = RcodeSuccess" by blast
    with True have "s # srvs = (s # pre) @ srv # post
        \<and> (\<forall>s\<in>set (s # pre). unsuccessful e msg s)
        \<and> cl e msg (address e srv) = Replied r \<and> Rcode r = RcodeSuccess" by simp
    then show ?thesis by blast
  next
    case False
    with Cons.prems have "s = srv \<and> cl e msg (address e srv) = Replied r \<and> Rcode r = RcodeSuccess"
      by (auto simp: unsuccessful_def split: exch.splits if_splits)
    then have "s # srvs = [] @ srv # srvs \<and> (\<forall>s\<in>set []. unsuccessful e msg s)
        \<and> cl e msg (address e srv) = Replied r \<and> Rcode r = RcodeSuccess" by simp
    then show ?thesis by blast
  qed
qed

lemma responder_None:
  "responder e msg srvs = None \<Longrightarrow> \<forall>s\<in>set srvs. unsuccessful e msg s"
  by (induction srvs) (auto simp: unsuccessful_def split: exch.splits if_splits)

lemma exchange_first_success:
  assumes "Question msg \<noteq> []"
    and "Servers (Cfg e) = pre @ srv # post"
    and "\<forall>s\<in>set pre. unsuccessful e msg s"
    and "cl e msg (address e srv) = Replied r"
    and "Rcode r = RcodeSuccess"
  shows "exchange e L msg =
           (Returns (Some (r\<lparr>AuthenticatedData := isLoopback L srv \<and> AuthenticatedData r\<rparr>), None),
            map (\<lambda>s. (msg, address e s)) (pre @ [srv]))"
  unfolding exchange_def assms(2) by (rule loop_first_success[OF assms(1,3,4,5)])

lemma exchange_responder:
  assumes "Question msg \<noteq> []" and "responder e msg (Servers (Cfg e)) = Some (srv, r)"
  shows "fst (exchange e L msg) =
           Returns (Some (r\<lparr>AuthenticatedData := isLoopback L srv \<and> AuthenticatedData r\<rparr>), None)"
proof -
  from responder_Some[OF assms(2)] obtain pre post where
    "Servers (Cfg e) = pre @ srv # post" "\<forall>s\<in>set pre. unsuccessful e msg s"
    "cl e msg (address e srv) = Replied r" "Rcode r = RcodeSuccess" by blast
  from exchange_first_success[OF assms(1) this] show ?thesis by simp
qed

text \<open>With at least one server, \<open>exchange\<close> returns a response or an error.\<close>

lemma exchange_cases:
  assumes "Question msg \<noteq> []" and "Servers (Cfg e) \<noteq> []"
  shows "(\<exists>resp. fst (exchange e L msg) = Returns (Some resp, None))
       \<or> (\<exists>resp err. fst (exchange e L msg) = Returns (resp, Some err))"
proof (cases "responder e msg (Servers (Cfg e))")
  case (Some sr)
  then have "responder e msg (Servers (Cfg e)) = Some (fst sr, snd sr)" by simp
  from exchange_responder[OF assms(1) this] show ?thesis by blast
next
  case None
  then have un: "\<forall>s\<in>set (Servers (Cfg e)). unsuccessful e msg s"
    by (rule responder_None)
  from assms(2) obtain pre srv where sp: "Servers (Cfg e) = pre @ [srv]"
    by (metis append_butlast_last_id)
  from un sp have pre: "\<forall>s\<in>set pre. unsuccessful e msg s" and last: "unsuccessful e msg srv"
    by simp_all
  from assms(1) obtain q qs where q: "Question msg = q # qs"
    by (cases "Question msg") simp_all
  show ?thesis
  proof (cases "cl e msg (address e srv)")
    case (Failed r err)
    from loop_all_fail_transport[OF assms(1) pre Failed] show ?thesis
      by (simp add: exchange_def sp)
  next
    case (Replied r)
    with last have "Rcode r \<noteq> RcodeSuccess" by (simp add: unsuccessful_def)
    from loop_all_fail_rcode[OF q pre Replied this] show ?thesis
      by (simp add: exchange_def sp)
  qed
qed

subsection \<open>The lookups after the exchange\<close>

lemma reportedAD_Returns [simp]: "fst x = Returns (ad, recs, None) \<Longrightarrow> reportedAD x = Some ad"
  by (simp add: reportedAD_def)

lemma single_responder:
  assumes "responder e (query z t) (Servers (Cfg e)) = Some (srv, r)"
  shows "fst (single e L (query z t) collect) =
           Returns (isLoopback L srv \<and> AuthenticatedData r, collect (Answer r), None)"
proof -
  have "fst (exchange e L (query z t)) =
           Returns (Some (r\<lparr>AuthenticatedData := isLoopback L srv \<and> AuthenticatedData r\<rparr>), None)"
    by (rule exchange_responder[OF _ assms]) simp
  then show ?thesis
    by (cases "exchange e L (query z t)") (simp add: single_def)
qed

lemma IPAddr_responder:
  assumes "responder e (query (Fqdn L host) TypeAAAA) (Servers (Cfg e)) = Some (srv6, r6)"
    and "responder e (query (Fqdn L host) TypeA) (Servers (Cfg e)) = Some (srv4, r4)"
  shows "fst (AuthLookupIPAddr e L host) =
           Returns ((isLoopback L srv6 \<and> AuthenticatedData r6)
                      \<and> (isLoopback L srv4 \<and> AuthenticatedData r4),
                    appendA (appendAAAA [] (Answer r6)) (Answer r4), None)"
proof -
  have 6: "fst (exchange e L (query (Fqdn L host) TypeAAAA)) =
           Returns (Some (r6\<lparr>AuthenticatedData := isLoopback L srv6 \<and> AuthenticatedData r6\<rparr>), None)"
    by (rule exchange_responder[OF _ assms(1)]) simp
  have 4: "fst (exchange e L (query (Fqdn L host) TypeA)) =
           Returns (Some (r4\<lparr>AuthenticatedData := isLoopback L srv4 \<and> AuthenticatedData r4\<rparr>), None)"
    by (rule exchange_responder[OF _ assms(2)]) simp
  from 6 4 show ?thesis
    by (cases "exchange e L (query (Fqdn L host) TypeAAAA)";
        cases "exchange e L (query (Fqdn L host) TypeA)")
       (simp add: AuthLookupIPAddr_def)
qed

lemma single_no_panic:
  assumes "Servers (Cfg e) \<noteq> []"
  shows "fst (single e L (query z t) collect) \<noteq> Panics"
proof -
  have "Question (query z t) \<noteq> []" by simp
  from exchange_cases[OF this assms, of L] show ?thesis
    by (cases "exchange e L (query z t)") (auto simp: single_def split: option.splits)
qed

lemma single_no_servers:
  assumes "Servers (Cfg e) = []"
  shows "fst (single e L msg collect) = Panics"
  using assms by (simp add: single_def exchange_def)

lemma IPAddr_no_panic:
  assumes "Servers (Cfg e) \<noteq> []"
  shows "fst (AuthLookupIPAddr e L host) \<noteq> Panics"
proof -
  have q: "Question (query (Fqdn L host) TypeAAAA) \<noteq> []"
    "Question (query (Fqdn L host) TypeA) \<noteq> []"
    by simp_all
  from exchange_cases[OF q(1) assms, of L] exchange_cases[OF q(2) assms, of L] show ?thesis
    by (cases "exchange e L (query (Fqdn L host) TypeAAAA)";
        cases "exchange e L (query (Fqdn L host) TypeA)")
       (auto simp: AuthLookupIPAddr_def split: option.splits)
qed

subsection \<open>The examples, evaluated\<close>

lemma example_responder:
  "responder exampleResolver msg (Servers (Cfg exampleResolver)) =
     Some (''127.0.0.1'', exampleReply msg)"
  by (simp add: exampleResolver_def address_def JoinHostPort_def exampleReply_def RcodeSuccess_def)

lemma remote_responder:
  "responder remoteResolver msg (Servers (Cfg remoteResolver)) =
     Some (''192.0.2.1'', exampleReply msg)"
  by (simp add: remoteResolver_def address_def JoinHostPort_def exampleReply_def RcodeSuccess_def)

lemma example_loopback:
  "isLoopback exampleLib ''127.0.0.1''" "\<not> isLoopback exampleLib ''192.0.2.1''"
  by (simp_all add: isLoopback_def exampleLib_def)

lemma example_names:
  "ReverseAddr exampleLib ''192.0.2.7'' = Inr ''7.2.0.192.in-addr.arpa.''"
  "TLSAName exampleLib ''example.org.'' ''25'' ''tcp'' = Inr ''_25._tcp.example.org.''"
  "Fqdn exampleLib ''example.org'' = ''example.org.''"
  by (simp_all add: exampleLib_def)

subsection \<open>The trust rule\<close>

text \<open>
  C1. Let a server \<open>srv\<close> be the responding server of a lookup's query and \<open>r\<close> its
  response as it came from the wire. Then the flag the lookup reports is
  \<open>isLoopback srv \<and> AuthenticatedData r\<close>: false when \<open>srv\<close> is not a loopback
  address, whatever the response says, and the flag of the response when it is. This
  holds of the response that \<open>exchange\<close> returns (for a query with a question, which
  every lookup's query has) and of the flag returned by the PTR, MX, TXT and TLSA
  lookups; the combined address lookup and the host lookup built on it report the
  conjunction of the two flags so obtained for the AAAA and the A query.
\<close>

theorem ad_flag_only_from_loopback:
  "(Question msg \<noteq> [] \<and> responder e msg (Servers (Cfg e)) = Some (srv, r) \<longrightarrow>
      fst (exchange e L msg) =
        Returns (Some (r\<lparr>AuthenticatedData := isLoopback L srv \<and> AuthenticatedData r\<rparr>), None))
   \<and> (ReverseAddr L addr = Inr revAddr
        \<and> responder e (query revAddr TypePTR) (Servers (Cfg e)) = Some (srv, r) \<longrightarrow>
      reportedAD (AuthLookupAddr e L addr) = Some (isLoopback L srv \<and> AuthenticatedData r))
   \<and> (responder e (query (Fqdn L name) TypeMX) (Servers (Cfg e)) = Some (srv, r) \<longrightarrow>
      reportedAD (AuthLookupMX e L name) = Some (isLoopback L srv \<and> AuthenticatedData r))
   \<and> (responder e (query (Fqdn L name) TypeTXT) (Servers (Cfg e)) = Some (srv, r) \<longrightarrow>
      reportedAD (AuthLookupTXT e L name) = Some (isLoopback L srv \<and> AuthenticatedData r))
   \<and> (TLSAName L domain service network = Inr tname
        \<and> responder e (query (Fqdn L tname) TypeTLSA) (Servers (Cfg e)) = Some (srv, r) \<longrightarrow>
      reportedAD (AuthLookupTLSA e L service network domain) =
        Some (isLoopback L srv \<and> AuthenticatedData r))
   \<and> (responder e (query (Fqdn L host) TypeAAAA) (Servers (Cfg e)) = Some (srv, r)
        \<and> responder e (query (Fqdn L host) TypeA) (Servers (Cfg e)) = Some (srv', r') \<longrightarrow>
      reportedAD (AuthLookupIPAddr e L host) =
        Some ((isLoopback L srv \<and> AuthenticatedData r) \<and> (isLoopback L srv' \<and> AuthenticatedData r'))
      \<and> reportedAD (AuthLookupHost e L host) =
        Some ((isLoopback L srv \<and> AuthenticatedData r) \<and> (isLoopback L srv' \<and> AuthenticatedData r')))"
proof (intro conjI impI; (elim conjE)?)
  assume "Question msg \<noteq> []" "responder e msg (Servers (Cfg e)) = Some (srv, r)"
  then show "fst (exchange e L msg) =
        Returns (Some (r\<lparr>AuthenticatedData := isLoopback L srv \<and> AuthenticatedData r\<rparr>), None)"
    by (rule exchange_responder)
next
  assume "ReverseAddr L addr = Inr revAddr"
    "responder e (query revAddr TypePTR) (Servers (Cfg e)) = Some (srv, r)"
  then show "reportedAD (AuthLookupAddr e L addr) = Some (isLoopback L srv \<and> AuthenticatedData r)"
    by (simp add: AuthLookupAddr_def single_responder)
next
  assume "responder e (query (Fqdn L name) TypeMX) (Servers (Cfg e)) = Some (srv, r)"
  then show "reportedAD (AuthLookupMX e L name) = Some (isLoopback L srv \<and> AuthenticatedData r)"
    by (simp add: AuthLookupMX_def single_responder)
next
  assume "responder e (query (Fqdn L name) TypeTXT) (Servers (Cfg e)) = Some (srv, r)"
  then show "reportedAD (AuthLookupTXT e L name) = Some (isLoopback L srv \<and> AuthenticatedData r)"
    by (simp add: AuthLookupTXT_def single_responder)
next
  assume "TLSAName L domain service network = Inr tname"
    "responder e (query (Fqdn L tname) TypeTLSA) (Servers (Cfg e)) = Some (srv, r)"
  then show "reportedAD (AuthLookupTLSA e L service network domain) =
        Some (isLoopback L srv \<and> AuthenticatedData r)"
    by (simp add: AuthLookupTLSA_def single_responder)
next
  assume a: "responder e (query (Fqdn L host) TypeAAAA) (Servers (Cfg e)) = Some (srv, r)"
    "responder e (query (Fqdn L host) TypeA) (Servers (Cfg e)) = Some (srv', r')"
  note ip = IPAddr_responder[OF a]
  from ip show "reportedAD (AuthLookupIPAddr e L host) =
        Some ((isLoopback L srv \<and> AuthenticatedData r) \<and> (isLoopback L srv' \<and> AuthenticatedData r'))"
    by simp
  from ip show "reportedAD (AuthLookupHost e L host) =
        Some ((isLoopback L srv \<and> AuthenticatedData r) \<and> (isLoopback L srv' \<and> AuthenticatedData r'))"
    by (cases "AuthLookupIPAddr e L host") (simp add: AuthLookupHost_def reportedAD_def)
qed

text \<open>
  On the first example resolver the loopback server answers, with the AD bit set:
  every lookup reports true. On the second a remote server answers, with the AD bit
  set as well: every lookup reports false.
\<close>

theorem ad_flag_only_from_loopback_witness:
  "reportedAD (AuthLookupAddr exampleResolver exampleLib ''192.0.2.7'') = Some True
   \<and> reportedAD (AuthLookupMX exampleResolver exampleLib ''example.org'') = Some True
   \<and> reportedAD (AuthLookupTXT exampleResolver exampleLib ''example.org'') = Some True
   \<and> reportedAD (AuthLookupTLSA exampleResolver exampleLib ''25'' ''tcp'' ''example.org.'') = Some True
   \<and> reportedAD (AuthLookupIPAddr exampleResolver exampleLib ''example.org'') = Some True
   \<and> reportedAD (AuthLookupHost exampleResolver exampleLib ''example.org'') = Some True
   \<and> reportedAD (AuthLookupAddr remoteResolver exampleLib ''192.0.2.7'') = Some False
   \<and> reportedAD (AuthLookupMX remoteResolver exampleLib ''example.org'') = Some False
   \<and> reportedAD (AuthLookupTXT remoteResolver exampleLib ''example.org'') = Some False
   \<and> reportedAD (AuthLookupTLSA remoteResolver exampleLib ''25'' ''tcp'' ''example.org.'') = Some False
   \<and> reportedAD (AuthLookupIPAddr remoteResolver exampleLib ''example.org'') = Some False
   \<and> reportedAD (AuthLookupHost remoteResolver exampleLib ''example.org'') = Some False
   \<and> AuthenticatedData (exampleReply (query ''example.org.'' TypeMX))"
proof -
  note a = ad_flag_only_from_loopback[where e = exampleResolver and L = exampleLib
      and addr = "''192.0.2.7''" and revAddr = "''7.2.0.192.in-addr.arpa.''"
      and name = "''example.org''" and host = "''example.org''"
      and domain = "''example.org.''" and service = "''25''" and network = "''tcp''"
      and tname = "''_25._tcp.example.org.''" and srv = "''127.0.0.1''" and srv' = "''127.0.0.1''"
      and msg = "query ''q'' TypeA", unfolded example_responder]
  note b = ad_flag_only_from_loopback[where e = remoteResolver and L = exampleLib
      and addr = "''192.0.2.7''" and revAddr = "''7.2.0.192.in-addr.arpa.''"
      and name = "''example.org''" and host = "''example.org''"
      and domain = "''example.org.''" and service = "''25''" and network = "''tcp''"
      and tname = "''_25._tcp.example.org.''" and srv = "''192.0.2.1''" and srv' = "''192.0.2.1''"
      and msg = "query ''q'' TypeA", unfolded remote_responder]
  from a b example_names(1,2) show ?thesis
    by (simp add: example_loopback exampleReply_def)
qed

subsection \<open>Fail-over\<close>

text \<open>
  What a lookup does with the outcome of \<open>exchange\<close>: its exchanges are those of
  \<open>exchange\<close>, an error of \<open>exchange\<close> is returned as it is with a false flag and
  no record, and from a response without an error the flag and the records are taken.
\<close>

lemma single_calls: "snd (single e L msg collect) = snd (exchange e L msg)"
  by (cases "exchange e L msg") (auto simp: single_def split: outcome.splits option.splits)

lemma single_error:
  "fst (exchange e L msg) = Returns (resp, Some err) \<Longrightarrow>
     fst (single e L msg collect) = Returns (False, [], Some err)"
  by (cases "exchange e L msg") (simp add: single_def)

lemma single_success:
  "fst (exchange e L msg) = Returns (Some r, None) \<Longrightarrow>
     fst (single e L msg collect) = Returns (AuthenticatedData r, collect (Answer r), None)"
  by (cases "exchange e L msg") (simp add: single_def)

lemma IPAddr_first_leg_error:
  "fst (exchange e L (query (Fqdn L host) TypeAAAA)) = Returns (resp, Some err) \<Longrightarrow>
     AuthLookupIPAddr e L host =
       (Returns (False, [], Some err), snd (exchange e L (query (Fqdn L host) TypeAAAA)))"
  by (cases "exchange e L (query (Fqdn L host) TypeAAAA)") (simp add: AuthLookupIPAddr_def)

lemma IPAddr_calls:
  "fst (exchange e L (query (Fqdn L host) TypeAAAA)) = Returns (Some r6, None) \<Longrightarrow>
     snd (AuthLookupIPAddr e L host) =
       snd (exchange e L (query (Fqdn L host) TypeAAAA))
         @ snd (exchange e L (query (Fqdn L host) TypeA))"
  by (cases "exchange e L (query (Fqdn L host) TypeAAAA)";
      cases "exchange e L (query (Fqdn L host) TypeA)")
     (auto simp: AuthLookupIPAddr_def split: outcome.splits option.splits)

lemma IPAddr_second_leg_error:
  "fst (exchange e L (query (Fqdn L host) TypeAAAA)) = Returns (Some r6, None) \<Longrightarrow>
   fst (exchange e L (query (Fqdn L host) TypeA)) = Returns (resp, Some err) \<Longrightarrow>
     fst (AuthLookupIPAddr e L host) = Returns (False, [], Some err)"
  by (cases "exchange e L (query (Fqdn L host) TypeAAAA)";
      cases "exchange e L (query (Fqdn L host) TypeA)")
     (simp add: AuthLookupIPAddr_def)

lemma Host_calls: "snd (AuthLookupHost e L host) = snd (AuthLookupIPAddr e L host)"
  by (cases "AuthLookupIPAddr e L host")
     (auto simp: AuthLookupHost_def split: outcome.splits option.splits)

lemma Host_error:
  "fst (AuthLookupIPAddr e L host) = Returns (ad, addrs, Some err) \<Longrightarrow>
     fst (AuthLookupHost e L host) = Returns (False, [], Some err)"
  by (cases "AuthLookupIPAddr e L host") (simp add: AuthLookupHost_def)

text \<open>
  C4. For a query with a question, \<open>exchange\<close> tries the servers in the order of the
  list. If the servers \<open>pre\<close> before \<open>srv\<close> are all unsuccessful (a transport error
  or a non-success RCODE) and \<open>srv\<close> answers with RCODE success, the exchanges made
  are those with \<open>pre\<close> and \<open>srv\<close>, in order, none with a later server, and the result
  is the response of \<open>srv\<close> with a nil error: the errors recorded on the way are gone.
  If all servers are unsuccessful, every server is tried, in order, and the error returned
  is the one of the last server: its transport error, or the \<open>RCodeError\<close> with the
  name of the query's first question and the RCODE of its response.

  Every lookup is such a run of \<open>exchange\<close> on its own query: the exchanges of the
  PTR, MX, TXT and TLSA lookups are exactly those of \<open>exchange\<close> on the lookup's query;
  an error that \<open>exchange\<close> returns is what the lookup returns, with a false flag and no
  record; a response that \<open>exchange\<close> returns without an error gives the lookup's flag
  and records. The combined address lookup does so for its AAAA query and, unless that
  leg returned an error, for its A query after it; the host lookup has the exchanges of
  the combined address lookup and returns its error.
\<close>

theorem exchange_fail_over:
  assumes "Question msg = q # qs"
  shows "(Servers (Cfg e) = pre @ srv # post \<and> (\<forall>s\<in>set pre. unsuccessful e msg s)
            \<and> cl e msg (address e srv) = Replied r \<and> Rcode r = RcodeSuccess \<longrightarrow>
          exchange e L msg =
            (Returns (Some (r\<lparr>AuthenticatedData := isLoopback L srv \<and> AuthenticatedData r\<rparr>), None),
             map (\<lambda>s. (msg, address e s)) (pre @ [srv])))
       \<and> (Servers (Cfg e) = pre @ [srv] \<and> (\<forall>s\<in>set pre. unsuccessful e msg s)
            \<and> cl e msg (address e srv) = Failed resp err \<longrightarrow>
          exchange e L msg =
            (Returns (resp, Some err), map (\<lambda>s. (msg, address e s)) (pre @ [srv])))
       \<and> (Servers (Cfg e) = pre @ [srv] \<and> (\<forall>s\<in>set pre. unsuccessful e msg s)
            \<and> cl e msg (address e srv) = Replied r \<and> Rcode r \<noteq> RcodeSuccess \<longrightarrow>
          exchange e L msg =
            (Returns (Some r, Some (RCodeErr (RCodeError (QName q) (Rcode r)))),
             map (\<lambda>s. (msg, address e s)) (pre @ [srv])))
       \<and> (ReverseAddr L addr = Inr revAddr \<longrightarrow>
            snd (AuthLookupAddr e L addr) = snd (exchange e L (query revAddr TypePTR))
            \<and> (fst (exchange e L (query revAddr TypePTR)) = Returns (lresp, Some lerr) \<longrightarrow>
                 fst (AuthLookupAddr e L addr) = Returns (False, [], Some lerr))
            \<and> (fst (exchange e L (query revAddr TypePTR)) = Returns (Some lr, None) \<longrightarrow>
                 fst (AuthLookupAddr e L addr) =
                   Returns (AuthenticatedData lr, appendPTR [] (Answer lr), None)))
       \<and> snd (AuthLookupMX e L name) = snd (exchange e L (query (Fqdn L name) TypeMX))
       \<and> (fst (exchange e L (query (Fqdn L name) TypeMX)) = Returns (lresp, Some lerr) \<longrightarrow>
            fst (AuthLookupMX e L name) = Returns (False, [], Some lerr))
       \<and> (fst (exchange e L (query (Fqdn L name) TypeMX)) = Returns (Some lr, None) \<longrightarrow>
            fst (AuthLookupMX e L name) =
              Returns (AuthenticatedData lr, appendMX [] (Answer lr), None))
       \<and> snd (AuthLookupTXT e L name) = snd (exchange e L (query (Fqdn L name) TypeTXT))
       \<and> (fst (exchange e L (query (Fqdn L name) TypeTXT)) = Returns (lresp, Some lerr) \<longrightarrow>
            fst (AuthLookupTXT e L name) = Returns (False, [], Some lerr))
       \<and> (fst (exchange e L (query (Fqdn L name) TypeTXT)) = Returns (Some lr, None) \<longrightarrow>
            fst (AuthLookupTXT e L name) =
              Returns (AuthenticatedData lr, appendTXT [] (Answer lr), None))
       \<and> (TLSAName L domain service network = Inr tname \<longrightarrow>
            snd (AuthLookupTLSA e L service network domain) =
              snd (exchange e L (query (Fqdn L tname) TypeTLSA))
            \<and> (fst (exchange e L (query (Fqdn L tname) TypeTLSA)) = Returns (lresp, Some lerr) \<longrightarrow>
                 fst (AuthLookupTLSA e L service network domain) = Returns (False, [], Some lerr))
            \<and> (fst (exchange e L (query (Fqdn L tname) TypeTLSA)) = Returns (Some lr, None) \<longrightarrow>
                 fst (AuthLookupTLSA e L service network domain) =
                   Returns (AuthenticatedData lr, appendTLSA [] (Answer lr), None)))
       \<and> (fst (exchange e L (query (Fqdn L name) TypeAAAA)) = Returns (lresp, Some lerr) \<longrightarrow>
            AuthLookupIPAddr e L name =
              (Returns (False, [], Some lerr), snd (exchange e L (query (Fqdn L name) TypeAAAA))))
       \<and> (fst (exchange e L (query (Fqdn L name) TypeAAAA)) = Returns (Some lr, None) \<longrightarrow>
            snd (AuthLookupIPAddr e L name) =
              snd (exchange e L (query (Fqdn L name) TypeAAAA))
                @ snd (exchange e L (query (Fqdn L name) TypeA))
            \<and> (fst (exchange e L (query (Fqdn L name) TypeA)) = Returns (lresp, Some lerr) \<longrightarrow>
                 fst (AuthLookupIPAddr e L name) = Returns (False, [], Some lerr)))
       \<and> snd (AuthLookupHost e L name) = snd (AuthLookupIPAddr e L name)
       \<and> (fst (AuthLookupIPAddr e L name) = Returns (lad, laddrs, Some lerr) \<longrightarrow>
            fst (AuthLookupHost e L name) = Returns (False, [], Some lerr))"
proof -
  from assms have ne: "Question msg \<noteq> []" by simp
  have 1: "Servers (Cfg e) = pre @ srv # post \<and> (\<forall>s\<in>set pre. unsuccessful e msg s)
            \<and> cl e msg (address e srv) = Replied r \<and> Rcode r = RcodeSuccess \<longrightarrow>
          exchange e L msg =
            (Returns (Some (r\<lparr>AuthenticatedData := isLoopback L srv \<and> AuthenticatedData r\<rparr>), None),
             map (\<lambda>s. (msg, address e s)) (pre @ [srv]))"
    using exchange_first_success[OF ne] by blast
  have 2: "Servers (Cfg e) = pre @ [srv] \<and> (\<forall>s\<in>set pre. unsuccessful e msg s)
            \<and> cl e msg (address e srv) = Failed resp err \<longrightarrow>
          exchange e L msg =
            (Returns (resp, Some err), map (\<lambda>s. (msg, address e s)) (pre @ [srv]))"
  proof (intro impI; elim conjE)
    assume s: "Servers (Cfg e) = pre @ [srv]" and "\<forall>s\<in>set pre. unsuccessful e msg s"
      "cl e msg (address e srv) = Failed resp err"
    from loop_all_fail_transport[OF ne this(2,3)]
    show "exchange e L msg =
            (Returns (resp, Some err), map (\<lambda>s. (msg, address e s)) (pre @ [srv]))"
      by (simp add: exchange_def s)
  qed
  have 3: "Servers (Cfg e) = pre @ [srv] \<and> (\<forall>s\<in>set pre. unsuccessful e msg s)
            \<and> cl e msg (address e srv) = Replied r \<and> Rcode r \<noteq> RcodeSuccess \<longrightarrow>
          exchange e L msg =
            (Returns (Some r, Some (RCodeErr (RCodeError (QName q) (Rcode r)))),
             map (\<lambda>s. (msg, address e s)) (pre @ [srv]))"
  proof (intro impI; elim conjE)
    assume s: "Servers (Cfg e) = pre @ [srv]" and "\<forall>s\<in>set pre. unsuccessful e msg s"
      "cl e msg (address e srv) = Replied r" "Rcode r \<noteq> RcodeSuccess"
    from loop_all_fail_rcode[OF assms this(2,3,4)]
    show "exchange e L msg =
            (Returns (Some r, Some (RCodeErr (RCodeError (QName q) (Rcode r)))),
             map (\<lambda>s. (msg, address e s)) (pre @ [srv]))"
      by (simp add: exchange_def s)
  qed
  have 4: "ReverseAddr L addr = Inr revAddr \<longrightarrow>
            snd (AuthLookupAddr e L addr) = snd (exchange e L (query revAddr TypePTR))
            \<and> (fst (exchange e L (query revAddr TypePTR)) = Returns (lresp, Some lerr) \<longrightarrow>
                 fst (AuthLookupAddr e L addr) = Returns (False, [], Some lerr))
            \<and> (fst (exchange e L (query revAddr TypePTR)) = Returns (Some lr, None) \<longrightarrow>
                 fst (AuthLookupAddr e L addr) =
                   Returns (AuthenticatedData lr, appendPTR [] (Answer lr), None))"
    using single_error single_success by (auto simp: AuthLookupAddr_def single_calls)
  have 5: "snd (AuthLookupMX e L name) = snd (exchange e L (query (Fqdn L name) TypeMX))"
    "fst (exchange e L (query (Fqdn L name) TypeMX)) = Returns (lresp, Some lerr) \<longrightarrow>
       fst (AuthLookupMX e L name) = Returns (False, [], Some lerr)"
    "fst (exchange e L (query (Fqdn L name) TypeMX)) = Returns (Some lr, None) \<longrightarrow>
       fst (AuthLookupMX e L name) =
         Returns (AuthenticatedData lr, appendMX [] (Answer lr), None)"
    using single_error single_success by (auto simp: AuthLookupMX_def single_calls)
  have 6: "snd (AuthLookupTXT e L name) = snd (exchange e L (query (Fqdn L name) TypeTXT))"
    "fst (exchange e L (query (Fqdn L name) TypeTXT)) = Returns (lresp, Some lerr) \<longrightarrow>
       fst (AuthLookupTXT e L name) = Returns (False, [], Some lerr)"
    "fst (exchange e L (query (Fqdn L name) TypeTXT)) = Returns (Some lr, None) \<longrightarrow>
       fst (AuthLookupTXT e L name) =
         Returns (AuthenticatedData lr, appendTXT [] (Answer lr), None)"
    using single_error single_success by (auto simp: AuthLookupTXT_def single_calls)
  have 7: "TLSAName L domain service network = Inr tname \<longrightarrow>
            snd (AuthLookupTLSA e L service network domain) =
              snd (exchange e L (query (Fqdn L tname) TypeTLSA))
            \<and> (fst (exchange e L (query (Fqdn L tname) TypeTLSA)) = Returns (lresp, Some lerr) \<longrightarrow>
                 fst (AuthLookupTLSA e L service network domain) = Returns (False, [], Some lerr))
            \<and> (fst (exchange e L (query (Fqdn L tname) TypeTLSA)) = Returns (Some lr, None) \<longrightarrow>
                 fst (AuthLookupTLSA e L service network domain) =
                   Returns (AuthenticatedData lr, appendTLSA [] (Answer lr), None))"
    using single_error single_success by (auto simp: AuthLookupTLSA_def single_calls)
  have 8: "fst (exchange e L (query (Fqdn L name) TypeAAAA)) = Returns (lresp, Some lerr) \<longrightarrow>
            AuthLookupIPAddr e L name =
              (Returns (False, [], Some lerr), snd (exchange e L (query (Fqdn L name) TypeAAAA)))"
    using IPAddr_first_leg_error by blast
  have 9: "fst (exchange e L (query (Fqdn L name) TypeAAAA)) = Returns (Some lr, None) \<longrightarrow>
            snd (AuthLookupIPAddr e L name) =
              snd (exchange e L (query (Fqdn L name) TypeAAAA))
                @ snd (exchange e L (query (Fqdn L name) TypeA))
            \<and> (fst (exchange e L (query (Fqdn L name) TypeA)) = Returns (lresp, Some lerr) \<longrightarrow>
                 fst (AuthLookupIPAddr e L name) = Returns (False, [], Some lerr))"
    using IPAddr_calls IPAddr_second_leg_error by blast
  have 10: "snd (AuthLookupHost e L name) = snd (AuthLookupIPAddr e L name)"
    "fst (AuthLookupIPAddr e L name) = Returns (lad, laddrs, Some lerr) \<longrightarrow>
       fst (AuthLookupHost e L name) = Returns (False, [], Some lerr)"
    using Host_calls Host_error by blast+
  from 1 2 3 4 5 6 7 8 9 10 show ?thesis by - (intro conjI, assumption+)
qed

text \<open>
  The three cases on the examples: a time-out and a SERVFAIL before the loopback server
  answers (the fourth server is not tried); a transport error on the last server; a REFUSED
  from the last server. And the lookups on the same resolvers: the MX lookup returns the
  MX record of the loopback server's answer after the same three exchanges; on the
  resolver that ends on REFUSED each lookup returns the \<open>RCodeError\<close> of the last
  server after trying both servers, the combined address lookup from its AAAA leg.
\<close>

theorem exchange_fail_over_witness:
  "exchange exampleResolver exampleLib (query ''example.org.'' TypeMX) =
     (Returns (Some (exampleReply (query ''example.org.'' TypeMX)), None),
      [(query ''example.org.'' TypeMX, ''192.0.2.1:53''),
       (query ''example.org.'' TypeMX, ''192.0.2.2:53''),
       (query ''example.org.'' TypeMX, ''127.0.0.1:53'')])
   \<and> exchange cancelledResolver exampleLib (query ''example.org.'' TypeMX) =
     (Returns (None, Some ContextCanceled),
      [(query ''example.org.'' TypeMX, ''192.0.2.1:53''),
       (query ''example.org.'' TypeMX, ''192.0.2.2:53'')])
   \<and> exchange refusingResolver exampleLib (query ''example.org.'' TypeMX) =
     (Returns (Some ((exampleReply (query ''example.org.'' TypeMX))\<lparr>Rcode := 5\<rparr>),
               Some (RCodeErr (RCodeError ''example.org.'' 5))),
      [(query ''example.org.'' TypeMX, ''192.0.2.1:53''),
       (query ''example.org.'' TypeMX, ''192.0.2.2:53'')])
   \<and> AuthLookupMX exampleResolver exampleLib ''example.org'' =
     (Returns (True, [MX ''mx.example.org.'' 10], None),
      [(query ''example.org.'' TypeMX, ''192.0.2.1:53''),
       (query ''example.org.'' TypeMX, ''192.0.2.2:53''),
       (query ''example.org.'' TypeMX, ''127.0.0.1:53'')])
   \<and> AuthLookupMX refusingResolver exampleLib ''example.org'' =
     (Returns (False, [], Some (RCodeErr (RCodeError ''example.org.'' 5))),
      [(query ''example.org.'' TypeMX, ''192.0.2.1:53''),
       (query ''example.org.'' TypeMX, ''192.0.2.2:53'')])
   \<and> AuthLookupTXT refusingResolver exampleLib ''example.org'' =
     (Returns (False, [], Some (RCodeErr (RCodeError ''example.org.'' 5))),
      [(query ''example.org.'' TypeTXT, ''192.0.2.1:53''),
       (query ''example.org.'' TypeTXT, ''192.0.2.2:53'')])
   \<and> AuthLookupAddr refusingResolver exampleLib ''192.0.2.7'' =
     (Returns (False, [], Some (RCodeErr (RCodeError ''7.2.0.192.in-addr.arpa.'' 5))),
      [(query ''7.2.0.192.in-addr.arpa.'' TypePTR, ''192.0.2.1:53''),
       (query ''7.2.0.192.in-addr.arpa.'' TypePTR, ''192.0.2.2:53'')])
   \<and> AuthLookupTLSA refusingResolver exampleLib ''25'' ''tcp'' ''example.org.'' =
     (Returns (False, [], Some (RCodeErr (RCodeError ''_25._tcp.example.org.'' 5))),
      [(query ''_25._tcp.example.org.'' TypeTLSA, ''192.0.2.1:53''),
       (query ''_25._tcp.example.org.'' TypeTLSA, ''192.0.2.2:53'')])
   \<and> AuthLookupIPAddr refusingResolver exampleLib ''example.org'' =
     (Returns (False, [], Some (RCodeErr (RCodeError ''example.org.'' 5))),
      [(query ''example.org.'' TypeAAAA, ''192.0.2.1:53''),
       (query ''example.org.'' TypeAAAA, ''192.0.2.2:53'')])
   \<and> AuthLookupHost refusingResolver exampleLib ''example.org'' =
     (Returns (False, [], Some (RCodeErr (RCodeError ''example.org.'' 5))),
      [(query ''example.org.'' TypeAAAA, ''192.0.2.1:53''),
       (query ''example.org.'' TypeAAAA, ''192.0.2.2:53'')])"
proof -
  let ?q = "query ''example.org.'' TypeMX"
  let ?e = "\<lambda>z. RCodeErr (RCodeError z 5)"
  let ?r = "\<lambda>m. Some ((exampleReply m)\<lparr>Rcode := 5\<rparr>)"
  have q: "Question ?q = \<lparr>QName = ''example.org.'', Qtype = TypeMX\<rparr> # []" by simp
  have tl: "TLSAName exampleLib ''example.org.'' ''25'' ''tcp'' = Inr ''_25._tcp.example.org.''"
    and fq: "Fqdn exampleLib ''_25._tcp.example.org.'' = ''_25._tcp.example.org.''"
    by (simp_all add: exampleLib_def)
  have refused: "\<And>z t. exchange refusingResolver exampleLib (query z t) =
     (Returns (?r (query z t), Some (?e z)),
      [(query z t, ''192.0.2.1:53''), (query z t, ''192.0.2.2:53'')])"
    by (simp add: exchange_def refusingResolver_def JoinHostPort_def RcodeSuccess_def)
  have answered: "exchange exampleResolver exampleLib ?q =
     (Returns (Some (exampleReply ?q), None),
      [(?q, ''192.0.2.1:53''), (?q, ''192.0.2.2:53''), (?q, ''127.0.0.1:53'')])"
    by (simp add: exchange_def exampleResolver_def JoinHostPort_def
        exampleReply_def RcodeSuccess_def example_loopback)
  note a = exchange_fail_over[OF q, where e = exampleResolver and L = exampleLib
      and pre = "[''192.0.2.1'', ''192.0.2.2'']" and srv = "''127.0.0.1''"
      and post = "[''192.0.2.3'']" and r = "exampleReply ?q"
      and name = "''example.org''" and lr = "exampleReply ?q"]
  note b = exchange_fail_over[OF q, where e = cancelledResolver and L = exampleLib
      and pre = "[''192.0.2.1'']" and srv = "''192.0.2.2''"
      and resp = None and err = ContextCanceled, THEN conjunct2, THEN conjunct1]
  note c = exchange_fail_over[OF q, where e = refusingResolver and L = exampleLib
      and pre = "[''192.0.2.1'']" and srv = "''192.0.2.2''"
      and r = "(exampleReply ?q)\<lparr>Rcode := 5\<rparr>", THEN conjunct2, THEN conjunct2, THEN conjunct1]
  have e1: "exchange exampleResolver exampleLib ?q =
     (Returns (Some (exampleReply ?q), None),
      [(?q, ''192.0.2.1:53''), (?q, ''192.0.2.2:53''), (?q, ''127.0.0.1:53'')])"
    using a[THEN conjunct1]
    by (simp add: exampleResolver_def unsuccessful_def address_def JoinHostPort_def
        exampleReply_def RcodeSuccess_def example_loopback)
  have e2: "exchange cancelledResolver exampleLib ?q =
     (Returns (None, Some ContextCanceled), [(?q, ''192.0.2.1:53''), (?q, ''192.0.2.2:53'')])"
    using b
    by (simp add: cancelledResolver_def unsuccessful_def address_def JoinHostPort_def)
  have e3: "exchange refusingResolver exampleLib ?q =
     (Returns (?r ?q, Some (?e ''example.org.'')),
      [(?q, ''192.0.2.1:53''), (?q, ''192.0.2.2:53'')])"
    using c
    by (simp add: refusingResolver_def unsuccessful_def address_def JoinHostPort_def
        RcodeSuccess_def)
  note a4 = a[THEN conjunct2, THEN conjunct2, THEN conjunct2, THEN conjunct2]
  have m1: "AuthLookupMX exampleResolver exampleLib ''example.org'' =
     (Returns (True, [MX ''mx.example.org.'' 10], None),
      [(?q, ''192.0.2.1:53''), (?q, ''192.0.2.2:53''), (?q, ''127.0.0.1:53'')])"
    using a4[THEN conjunct1] a4[THEN conjunct2, THEN conjunct2, THEN conjunct1]
    by (simp add: prod_eq_iff example_names answered exampleReply_def exampleAnswer_def)
  note mx = exchange_fail_over[OF q, where e = refusingResolver and L = exampleLib
      and name = "''example.org''" and lresp = "?r ?q" and lerr = "?e ''example.org.''",
      THEN conjunct2, THEN conjunct2, THEN conjunct2, THEN conjunct2]
  have m2: "AuthLookupMX refusingResolver exampleLib ''example.org'' =
     (Returns (False, [], Some (?e ''example.org.'')),
      [(?q, ''192.0.2.1:53''), (?q, ''192.0.2.2:53'')])"
    using mx[THEN conjunct1] mx[THEN conjunct2, THEN conjunct1]
    by (simp add: prod_eq_iff example_names refused)
  note tx = exchange_fail_over[OF q, where e = refusingResolver and L = exampleLib
      and name = "''example.org''" and lresp = "?r (query ''example.org.'' TypeTXT)"
      and lerr = "?e ''example.org.''",
      THEN conjunct2, THEN conjunct2, THEN conjunct2, THEN conjunct2,
      THEN conjunct2, THEN conjunct2, THEN conjunct2]
  have m3: "AuthLookupTXT refusingResolver exampleLib ''example.org'' =
     (Returns (False, [], Some (?e ''example.org.'')),
      [(query ''example.org.'' TypeTXT, ''192.0.2.1:53''),
       (query ''example.org.'' TypeTXT, ''192.0.2.2:53'')])"
    using tx[THEN conjunct1] tx[THEN conjunct2, THEN conjunct1]
    by (simp add: prod_eq_iff example_names refused)
  note ptr = exchange_fail_over[OF q, where e = refusingResolver and L = exampleLib
      and addr = "''192.0.2.7''" and revAddr = "''7.2.0.192.in-addr.arpa.''"
      and lresp = "?r (query ''7.2.0.192.in-addr.arpa.'' TypePTR)"
      and lerr = "?e ''7.2.0.192.in-addr.arpa.''",
      THEN conjunct2, THEN conjunct2, THEN conjunct2, THEN conjunct1,
      THEN mp, OF example_names(1)]
  have m4: "AuthLookupAddr refusingResolver exampleLib ''192.0.2.7'' =
     (Returns (False, [], Some (?e ''7.2.0.192.in-addr.arpa.'')),
      [(query ''7.2.0.192.in-addr.arpa.'' TypePTR, ''192.0.2.1:53''),
       (query ''7.2.0.192.in-addr.arpa.'' TypePTR, ''192.0.2.2:53'')])"
    using ptr[THEN conjunct1] ptr[THEN conjunct2, THEN conjunct1]
    by (simp add: prod_eq_iff refused)
  note tlsa = exchange_fail_over[OF q, where e = refusingResolver and L = exampleLib
      and domain = "''example.org.''" and service = "''25''"
      and network = "''tcp''" and tname = "''_25._tcp.example.org.''"
      and lresp = "?r (query ''_25._tcp.example.org.'' TypeTLSA)"
      and lerr = "?e ''_25._tcp.example.org.''",
      THEN conjunct2, THEN conjunct2, THEN conjunct2, THEN conjunct2,
      THEN conjunct2, THEN conjunct2, THEN conjunct2,
      THEN conjunct2, THEN conjunct2, THEN conjunct2, THEN conjunct1,
      THEN mp, OF tl]
  have m5: "AuthLookupTLSA refusingResolver exampleLib ''25'' ''tcp'' ''example.org.'' =
     (Returns (False, [], Some (?e ''_25._tcp.example.org.'')),
      [(query ''_25._tcp.example.org.'' TypeTLSA, ''192.0.2.1:53''),
       (query ''_25._tcp.example.org.'' TypeTLSA, ''192.0.2.2:53'')])"
    using tlsa[THEN conjunct1] tlsa[THEN conjunct2, THEN conjunct1]
    by (simp add: prod_eq_iff fq refused)
  note ip = exchange_fail_over[OF q, where e = refusingResolver and L = exampleLib
      and name = "''example.org''" and lresp = "?r (query ''example.org.'' TypeAAAA)"
      and lerr = "?e ''example.org.''" and lad = False and laddrs = "[]",
      THEN conjunct2, THEN conjunct2, THEN conjunct2, THEN conjunct2,
      THEN conjunct2, THEN conjunct2, THEN conjunct2,
      THEN conjunct2, THEN conjunct2, THEN conjunct2, THEN conjunct2]
  have m6: "AuthLookupIPAddr refusingResolver exampleLib ''example.org'' =
     (Returns (False, [], Some (?e ''example.org.'')),
      [(query ''example.org.'' TypeAAAA, ''192.0.2.1:53''),
       (query ''example.org.'' TypeAAAA, ''192.0.2.2:53'')])"
    using ip[THEN conjunct1]
    by (simp add: example_names refused)
  have m7: "AuthLookupHost refusingResolver exampleLib ''example.org'' =
     (Returns (False, [], Some (?e ''example.org.'')),
      [(query ''example.org.'' TypeAAAA, ''192.0.2.1:53''),
       (query ''example.org.'' TypeAAAA, ''192.0.2.2:53'')])"
    using ip[THEN conjunct2, THEN conjunct2, THEN conjunct1]
      ip[THEN conjunct2, THEN conjunct2, THEN conjunct2]
    by (simp add: prod_eq_iff m6)
  from e1 e2 e3 m1 m2 m3 m4 m5 m6 m7 show ?thesis by simp
qed

subsection \<open>The combined address lookup\<close>

text \<open>
  C5. \<open>AuthLookupIPAddr\<close> runs \<open>exchange\<close> on the AAAA query of the host and then
  on its A query. When both return a response, the flag it reports is the conjunction of
  the flags of the two responses, its addresses are those of the AAAA records of the
  first answer followed by those of the A records of the second, and its exchanges are
  those of the first leg followed by those of the second. When the AAAA leg returns an
  error, the lookup returns that error with a false flag and no address, and the A
  query is never sent; when the A leg returns an error, the lookup returns that error
  with a false flag and no address. Every exchange of a leg carries that leg's query.
\<close>

theorem AuthLookupIPAddr_combines_legs:
  "(exchange e L (query (Fqdn L host) TypeAAAA) = (Returns (Some r6, None), c6)
      \<and> exchange e L (query (Fqdn L host) TypeA) = (Returns (Some r4, None), c4) \<longrightarrow>
    AuthLookupIPAddr e L host =
      (Returns (AuthenticatedData r6 \<and> AuthenticatedData r4,
                [ip. AAAA_RR ip \<leftarrow> Answer r6] @ [ip. A_RR ip \<leftarrow> Answer r4], None),
       c6 @ c4))
   \<and> (exchange e L (query (Fqdn L host) TypeAAAA) = (Returns (resp, Some err), c6) \<longrightarrow>
    AuthLookupIPAddr e L host = (Returns (False, [], Some err), c6))
   \<and> (exchange e L (query (Fqdn L host) TypeAAAA) = (Returns (Some r6, None), c6)
      \<and> exchange e L (query (Fqdn L host) TypeA) = (Returns (resp, Some err), c4) \<longrightarrow>
    AuthLookupIPAddr e L host = (Returns (False, [], Some err), c6 @ c4))
   \<and> map fst (snd (exchange e L (query (Fqdn L host) TypeAAAA))) =
       replicate (length (snd (exchange e L (query (Fqdn L host) TypeAAAA))))
         (query (Fqdn L host) TypeAAAA)
   \<and> map fst (snd (exchange e L (query (Fqdn L host) TypeA))) =
       replicate (length (snd (exchange e L (query (Fqdn L host) TypeA))))
         (query (Fqdn L host) TypeA)"
  by (simp add: AuthLookupIPAddr_def appendA_eq appendAAAA_eq exchange_def exchange_loop_calls)

text \<open>
  On the first example resolver both legs are answered by the loopback server; on the
  resolver whose last server answers REFUSED the AAAA leg fails and no A query is sent.
\<close>

theorem AuthLookupIPAddr_combines_legs_witness:
  "AuthLookupIPAddr exampleResolver exampleLib ''example.org'' =
     (Returns (True, [replicate 15 0 @ [7], [192, 0, 2, 7], [192, 0, 2, 8]], None),
      [(query ''example.org.'' TypeAAAA, ''192.0.2.1:53''),
       (query ''example.org.'' TypeAAAA, ''192.0.2.2:53''),
       (query ''example.org.'' TypeAAAA, ''127.0.0.1:53''),
       (query ''example.org.'' TypeA, ''192.0.2.1:53''),
       (query ''example.org.'' TypeA, ''192.0.2.2:53''),
       (query ''example.org.'' TypeA, ''127.0.0.1:53'')])
   \<and> AuthLookupIPAddr refusingResolver exampleLib ''example.org'' =
     (Returns (False, [], Some (RCodeErr (RCodeError ''example.org.'' 5))),
      [(query ''example.org.'' TypeAAAA, ''192.0.2.1:53''),
       (query ''example.org.'' TypeAAAA, ''192.0.2.2:53'')])"
proof -
  let ?q6 = "query ''example.org.'' TypeAAAA" and ?q4 = "query ''example.org.'' TypeA"
  note f = example_names(3)
  have e6: "exchange exampleResolver exampleLib ?q6 =
     (Returns (Some (exampleReply ?q6), None),
      [(?q6, ''192.0.2.1:53''), (?q6, ''192.0.2.2:53''), (?q6, ''127.0.0.1:53'')])"
    by (simp add: exchange_def exampleResolver_def JoinHostPort_def
        exampleReply_def RcodeSuccess_def example_loopback)
  have e4: "exchange exampleResolver exampleLib ?q4 =
     (Returns (Some (exampleReply ?q4), None),
      [(?q4, ''192.0.2.1:53''), (?q4, ''192.0.2.2:53''), (?q4, ''127.0.0.1:53'')])"
    by (simp add: exchange_def exampleResolver_def JoinHostPort_def
        exampleReply_def RcodeSuccess_def example_loopback)
  have r6: "exchange refusingResolver exampleLib ?q6 =
     (Returns (Some ((exampleReply ?q6)\<lparr>Rcode := 5\<rparr>),
               Some (RCodeErr (RCodeError ''example.org.'' 5))),
      [(?q6, ''192.0.2.1:53''), (?q6, ''192.0.2.2:53'')])"
    by (simp add: exchange_def refusingResolver_def JoinHostPort_def
        exampleReply_def RcodeSuccess_def)
  note a = AuthLookupIPAddr_combines_legs[where e = exampleResolver and L = exampleLib
      and host = "''example.org''", unfolded f, THEN conjunct1, THEN mp, OF conjI, OF e6 e4]
  note b = AuthLookupIPAddr_combines_legs[where e = refusingResolver and L = exampleLib
      and host = "''example.org''", unfolded f, THEN conjunct2, THEN conjunct1, THEN mp, OF r6]
  from a b show ?thesis
    by (simp add: exampleReply_def exampleAnswer_def)
qed

subsection \<open>Cancellation\<close>

text \<open>
  The resolver hands the caller's context to every exchange and never looks at it: the
  loop has one case for an exchange that fails, whatever the error. So an error reaches
  the caller only after the last server of the list, and after a failed exchange the
  next server is tried.
\<close>

lemma fst_logged [simp]: "fst (logged c r) = fst r"
  by (simp add: logged_def)

lemma loop_error_all_tried:
  "fst (exchange_loop e L msg srvs resp lastErr) = Returns (r, Some err) \<Longrightarrow>
     snd (exchange_loop e L msg srvs resp lastErr) = map (\<lambda>s. (msg, address e s)) srvs"
  by (induction srvs arbitrary: resp lastErr)
     (auto simp: address_def split: exch.splits list.splits if_splits)

lemma exchange_error_all_tried:
  "fst (exchange e L msg) = Returns (resp, Some err) \<Longrightarrow>
     snd (exchange e L msg) = map (\<lambda>s. (msg, address e s)) (Servers (Cfg e))"
  unfolding exchange_def by (rule loop_error_all_tried)

lemma loop_next_tried:
  assumes "Question msg \<noteq> []"
    and "\<forall>s\<in>set pre. unsuccessful e msg s"
    and "cl e msg (address e srv) = Failed r ferr"
  shows "take (length pre + 2) (snd (exchange_loop e L msg (pre @ srv # nxt # post) resp lastErr)) =
           map (\<lambda>s. (msg, address e s)) (pre @ [srv, nxt])"
  using assms
proof (induction pre arbitrary: resp lastErr)
  case Nil
  then show ?case by (simp add: address_def)
next
  case (Cons s pre)
  then show ?case
    by (cases "cl e msg (address e s)"; cases "Question msg")
       (simp_all add: address_def unsuccessful_def)
qed

lemma single_error_only:
  "fst (single e L msg collect) = Returns (ad, recs, Some err) \<Longrightarrow>
     \<exists>resp. fst (exchange e L msg) = Returns (resp, Some err)"
  by (cases "exchange e L msg") (auto simp: single_def split: outcome.splits option.splits)

lemma single_error_all_tried:
  assumes "fst (single e L msg collect) = Returns (ad, recs, Some err)"
  shows "snd (single e L msg collect) = map (\<lambda>s. (msg, address e s)) (Servers (Cfg e))"
proof -
  from single_error_only[OF assms] obtain resp where
    "fst (exchange e L msg) = Returns (resp, Some err)" by blast
  then have "snd (exchange e L msg) = map (\<lambda>s. (msg, address e s)) (Servers (Cfg e))"
    unfolding exchange_def by (rule loop_error_all_tried)
  then show ?thesis by (simp add: single_calls)
qed

text \<open>
  C8, as the claim states it, fails. Take two configured servers. Whatever the client
  does in an exchange (so whatever a context cancelled during the exchange with the
  first server makes it do), neither \<open>exchange\<close> nor a lookup returns an error to the
  caller with the first server as the only one tried: the outcome the claim promises
  is not one the resolver has.
\<close>

theorem cancellation_counterexample:
  "\<forall>client resp err ad recs.
     exchange \<lparr>cl = client, Cfg = \<lparr>Servers = [''192.0.2.1'', ''192.0.2.2''], Port = ''53''\<rparr>\<rparr>
         exampleLib (query ''example.org.'' TypeMX) \<noteq>
       (Returns (resp, Some err), [(query ''example.org.'' TypeMX, ''192.0.2.1:53'')])
     \<and> AuthLookupMX \<lparr>cl = client, Cfg = \<lparr>Servers = [''192.0.2.1'', ''192.0.2.2''], Port = ''53''\<rparr>\<rparr>
         exampleLib ''example.org'' \<noteq>
       (Returns (ad, recs, Some err), [(query ''example.org.'' TypeMX, ''192.0.2.1:53'')])"
proof (intro allI conjI notI)
  fix client resp err
  let ?e = "\<lparr>cl = client, Cfg = \<lparr>Servers = [''192.0.2.1'', ''192.0.2.2''], Port = ''53''\<rparr>\<rparr>"
  let ?q = "query ''example.org.'' TypeMX"
  assume a: "exchange ?e exampleLib ?q = (Returns (resp, Some err), [(?q, ''192.0.2.1:53'')])"
  then have "fst (exchange ?e exampleLib ?q) = Returns (resp, Some err)" by simp
  then have "snd (exchange ?e exampleLib ?q) = map (\<lambda>s. (?q, address ?e s)) (Servers (Cfg ?e))"
    by (rule exchange_error_all_tried)
  then have "length (snd (exchange ?e exampleLib ?q)) = 2" by simp
  moreover from a have "length (snd (exchange ?e exampleLib ?q)) = 1" by simp
  ultimately show False by simp
next
  fix client err ad recs
  let ?e = "\<lparr>cl = client, Cfg = \<lparr>Servers = [''192.0.2.1'', ''192.0.2.2''], Port = ''53''\<rparr>\<rparr>"
  let ?q = "query (Fqdn exampleLib ''example.org'') TypeMX"
  assume a: "AuthLookupMX ?e exampleLib ''example.org'' =
       (Returns (ad, recs, Some err), [(query ''example.org.'' TypeMX, ''192.0.2.1:53'')])"
  then have "fst (single ?e exampleLib ?q (appendMX [])) = Returns (ad, recs, Some err)"
    by (simp add: AuthLookupMX_def)
  then have "snd (single ?e exampleLib ?q (appendMX [])) =
      map (\<lambda>s. (?q, address ?e s)) (Servers (Cfg ?e))"
    by (rule single_error_all_tried)
  then have "length (snd (AuthLookupMX ?e exampleLib ''example.org'')) = 2"
    by (simp add: AuthLookupMX_def)
  moreover from a have "length (snd (AuthLookupMX ?e exampleLib ''example.org'')) = 1" by simp
  ultimately show False by simp
qed

text \<open>
  C8, amended. The resolver has no case of its own for a cancelled context. An exchange
  that fails, with whatever error, is followed by the exchange with the next configured
  server; an error is returned to the caller, by \<open>exchange\<close> and by the PTR, MX, TXT
  and TLSA lookups, only when every configured server has been tried, in order; and the
  error of a failed exchange with the last configured server is the error returned.
  Whether a cancelled context makes an exchange in flight fail is the client library's
  matter and is not stated.
\<close>

theorem error_only_after_last_server:
  "(fst (exchange e L msg) = Returns (resp, Some err) \<longrightarrow>
      snd (exchange e L msg) = map (\<lambda>s. (msg, address e s)) (Servers (Cfg e)))
   \<and> (Question msg \<noteq> [] \<and> Servers (Cfg e) = pre @ srv # nxt # post
        \<and> (\<forall>s\<in>set pre. unsuccessful e msg s)
        \<and> cl e msg (address e srv) = Failed r ferr \<longrightarrow>
      take (length pre + 2) (snd (exchange e L msg)) =
        map (\<lambda>s. (msg, address e s)) (pre @ [srv, nxt]))
   \<and> (Question msg \<noteq> [] \<and> Servers (Cfg e) = pre @ [srv]
        \<and> (\<forall>s\<in>set pre. unsuccessful e msg s)
        \<and> cl e msg (address e srv) = Failed r ferr \<longrightarrow>
      fst (exchange e L msg) = Returns (r, Some ferr))
   \<and> (ReverseAddr L addr = Inr revAddr
        \<and> fst (AuthLookupAddr e L addr) = Returns (ad, names, Some err) \<longrightarrow>
      snd (AuthLookupAddr e L addr) =
        map (\<lambda>s. (query revAddr TypePTR, address e s)) (Servers (Cfg e)))
   \<and> (fst (AuthLookupMX e L name) = Returns (ad, mxs, Some err) \<longrightarrow>
      snd (AuthLookupMX e L name) =
        map (\<lambda>s. (query (Fqdn L name) TypeMX, address e s)) (Servers (Cfg e)))
   \<and> (fst (AuthLookupTXT e L name) = Returns (ad, names, Some err) \<longrightarrow>
      snd (AuthLookupTXT e L name) =
        map (\<lambda>s. (query (Fqdn L name) TypeTXT, address e s)) (Servers (Cfg e)))
   \<and> (TLSAName L domain service network = Inr tname
        \<and> fst (AuthLookupTLSA e L service network domain) = Returns (ad, tlsas, Some err) \<longrightarrow>
      snd (AuthLookupTLSA e L service network domain) =
        map (\<lambda>s. (query (Fqdn L tname) TypeTLSA, address e s)) (Servers (Cfg e)))"
proof -
  have 1: "fst (exchange e L msg) = Returns (resp, Some err) \<longrightarrow>
      snd (exchange e L msg) = map (\<lambda>s. (msg, address e s)) (Servers (Cfg e))"
    using exchange_error_all_tried by blast
  have 2: "Question msg \<noteq> [] \<and> Servers (Cfg e) = pre @ srv # nxt # post
        \<and> (\<forall>s\<in>set pre. unsuccessful e msg s)
        \<and> cl e msg (address e srv) = Failed r ferr \<longrightarrow>
      take (length pre + 2) (snd (exchange e L msg)) =
        map (\<lambda>s. (msg, address e s)) (pre @ [srv, nxt])"
  proof (intro impI; elim conjE)
    assume s: "Servers (Cfg e) = pre @ srv # nxt # post" and "Question msg \<noteq> []"
      "\<forall>s\<in>set pre. unsuccessful e msg s" "cl e msg (address e srv) = Failed r ferr"
    from loop_next_tried[OF this(2,3,4)]
    show "take (length pre + 2) (snd (exchange e L msg)) =
        map (\<lambda>s. (msg, address e s)) (pre @ [srv, nxt])"
      by (simp add: exchange_def s)
  qed
  have 3: "Question msg \<noteq> [] \<and> Servers (Cfg e) = pre @ [srv]
        \<and> (\<forall>s\<in>set pre. unsuccessful e msg s)
        \<and> cl e msg (address e srv) = Failed r ferr \<longrightarrow>
      fst (exchange e L msg) = Returns (r, Some ferr)"
  proof (intro impI; elim conjE)
    assume s: "Servers (Cfg e) = pre @ [srv]" and "Question msg \<noteq> []"
      "\<forall>s\<in>set pre. unsuccessful e msg s" "cl e msg (address e srv) = Failed r ferr"
    from loop_all_fail_transport[OF this(2,3,4)]
    show "fst (exchange e L msg) = Returns (r, Some ferr)"
      by (simp add: exchange_def s)
  qed
  have 4: "ReverseAddr L addr = Inr revAddr
        \<and> fst (AuthLookupAddr e L addr) = Returns (ad, names, Some err) \<longrightarrow>
      snd (AuthLookupAddr e L addr) =
        map (\<lambda>s. (query revAddr TypePTR, address e s)) (Servers (Cfg e))"
    using single_error_all_tried by (auto simp: AuthLookupAddr_def)
  have 5: "fst (AuthLookupMX e L name) = Returns (ad, mxs, Some err) \<longrightarrow>
      snd (AuthLookupMX e L name) =
        map (\<lambda>s. (query (Fqdn L name) TypeMX, address e s)) (Servers (Cfg e))"
    using single_error_all_tried by (auto simp: AuthLookupMX_def)
  have 6: "fst (AuthLookupTXT e L name) = Returns (ad, names, Some err) \<longrightarrow>
      snd (AuthLookupTXT e L name) =
        map (\<lambda>s. (query (Fqdn L name) TypeTXT, address e s)) (Servers (Cfg e))"
    using single_error_all_tried by (auto simp: AuthLookupTXT_def)
  have 7: "TLSAName L domain service network = Inr tname
        \<and> fst (AuthLookupTLSA e L service network domain) = Returns (ad, tlsas, Some err) \<longrightarrow>
      snd (AuthLookupTLSA e L service network domain) =
        map (\<lambda>s. (query (Fqdn L tname) TypeTLSA, address e s)) (Servers (Cfg e))"
    using single_error_all_tried by (auto simp: AuthLookupTLSA_def)
  from 1 2 3 4 5 6 7 show ?thesis by - (intro conjI, assumption+)
qed

text \<open>
  On the examples. The first server of the first resolver times out and the second is
  tried next. The resolver whose servers all time out returns the time-out of the last
  one, after both. The MX lookup on the resolver that ends on REFUSED returns an error,
  after both servers.
\<close>

theorem error_only_after_last_server_witness:
  "take 2 (snd (exchange exampleResolver exampleLib (query ''example.org.'' TypeMX))) =
     [(query ''example.org.'' TypeMX, ''192.0.2.1:53''),
      (query ''example.org.'' TypeMX, ''192.0.2.2:53'')]
   \<and> cl exampleResolver (query ''example.org.'' TypeMX) ''192.0.2.1:53'' =
       Failed None (OtherError ''i/o timeout'')
   \<and> exchange unreachableResolver exampleLib (query ''example.org.'' TypeMX) =
     (Returns (None, Some (OtherError ''i/o timeout'')),
      [(query ''example.org.'' TypeMX, ''192.0.2.1:53''),
       (query ''example.org.'' TypeMX, ''192.0.2.2:53'')])
   \<and> fst (AuthLookupMX refusingResolver exampleLib ''example.org'') =
       Returns (False, [], Some (RCodeErr (RCodeError ''example.org.'' 5)))
   \<and> snd (AuthLookupMX refusingResolver exampleLib ''example.org'') =
       [(query ''example.org.'' TypeMX, ''192.0.2.1:53''),
        (query ''example.org.'' TypeMX, ''192.0.2.2:53'')]"
proof -
  let ?q = "query ''example.org.'' TypeMX"
  have q: "Question ?q \<noteq> []" by simp
  have f: "cl exampleResolver ?q ''192.0.2.1:53'' = Failed None (OtherError ''i/o timeout'')"
    by (simp add: exampleResolver_def)
  have u: "cl unreachableResolver ?q ''192.0.2.2:53'' = Failed None (OtherError ''i/o timeout'')"
    by (simp add: unreachableResolver_def)
  have mx: "fst (AuthLookupMX refusingResolver exampleLib ''example.org'') =
       Returns (False, [], Some (RCodeErr (RCodeError ''example.org.'' 5)))"
    by (simp add: AuthLookupMX_def single_def exchange_def refusingResolver_def exampleLib_def
        JoinHostPort_def RcodeSuccess_def)
  note a = error_only_after_last_server[where e = exampleResolver and L = exampleLib
      and msg = ?q and pre = "[]" and srv = "''192.0.2.1''" and nxt = "''192.0.2.2''"
      and post = "[''127.0.0.1'', ''192.0.2.3'']" and r = None
      and ferr = "OtherError ''i/o timeout''", THEN conjunct2, THEN conjunct1]
  note b = error_only_after_last_server[where e = unreachableResolver and L = exampleLib
      and msg = ?q and resp = None and err = "OtherError ''i/o timeout''"
      and pre = "[''192.0.2.1'']" and srv = "''192.0.2.2''" and r = None
      and ferr = "OtherError ''i/o timeout''"]
  note c = error_only_after_last_server[where e = refusingResolver and L = exampleLib
      and name = "''example.org''" and ad = False and mxs = "[]"
      and err = "RCodeErr (RCodeError ''example.org.'' 5)",
      THEN conjunct2, THEN conjunct2, THEN conjunct2, THEN conjunct2, THEN conjunct1,
      THEN mp, OF mx]
  have 1: "take 2 (snd (exchange exampleResolver exampleLib ?q)) =
     [(?q, ''192.0.2.1:53''), (?q, ''192.0.2.2:53'')]"
    using a q by (simp add: exampleResolver_def address_def JoinHostPort_def numeral_2_eq_2)
  have fa: "fst (exchange unreachableResolver exampleLib ?q) =
      Returns (None, Some (OtherError ''i/o timeout''))"
    using b[THEN conjunct2, THEN conjunct2, THEN conjunct1] q
    by (simp add: unreachableResolver_def unsuccessful_def address_def JoinHostPort_def)
  have fb: "snd (exchange unreachableResolver exampleLib ?q) =
      [(?q, ''192.0.2.1:53''), (?q, ''192.0.2.2:53'')]"
    using b[THEN conjunct1, THEN mp, OF fa]
    by (simp add: unreachableResolver_def address_def JoinHostPort_def)
  have 3: "exchange unreachableResolver exampleLib ?q =
     (Returns (None, Some (OtherError ''i/o timeout'')),
      [(?q, ''192.0.2.1:53''), (?q, ''192.0.2.2:53'')])"
    using fa fb by (simp add: prod_eq_iff)
  have 5: "snd (AuthLookupMX refusingResolver exampleLib ''example.org'') =
       [(?q, ''192.0.2.1:53''), (?q, ''192.0.2.2:53'')]"
    using c by (simp add: refusingResolver_def address_def JoinHostPort_def example_names)
  from 1 f 3 mx 5 show ?thesis by simp
qed

subsection \<open>The nil response\<close>

text \<open>
  C10. With an empty server list \<open>exchange\<close> returns a nil response and a nil error,
  and each of the five lookups then panics on the nil response (the PTR and TLSA
  lookups once the library has built the name to query; they return its error
  otherwise). With a non-empty server list no lookup panics: \<open>exchange\<close> then returns
  a response or an error.
\<close>

theorem nil_response_only_without_servers:
  "(Servers (Cfg e) = [] \<longrightarrow>
      exchange e L msg = (Returns (None, None), [])
      \<and> (ReverseAddr L addr = Inr revAddr \<longrightarrow> fst (AuthLookupAddr e L addr) = Panics)
      \<and> fst (AuthLookupMX e L name) = Panics
      \<and> fst (AuthLookupTXT e L name) = Panics
      \<and> fst (AuthLookupIPAddr e L name) = Panics
      \<and> (TLSAName L domain service network = Inr tname \<longrightarrow>
           fst (AuthLookupTLSA e L service network domain) = Panics))
   \<and> (Servers (Cfg e) \<noteq> [] \<longrightarrow>
      fst (AuthLookupAddr e L addr) \<noteq> Panics
      \<and> fst (AuthLookupMX e L name) \<noteq> Panics
      \<and> fst (AuthLookupTXT e L name) \<noteq> Panics
      \<and> fst (AuthLookupIPAddr e L name) \<noteq> Panics
      \<and> fst (AuthLookupTLSA e L service network domain) \<noteq> Panics)"
proof (intro conjI impI)
  assume s: "Servers (Cfg e) = []"
  show "exchange e L msg = (Returns (None, None), [])"
    using s by (simp add: exchange_def)
  show "fst (AuthLookupMX e L name) = Panics"
    using s by (simp add: AuthLookupMX_def single_no_servers)
  show "fst (AuthLookupTXT e L name) = Panics"
    using s by (simp add: AuthLookupTXT_def single_no_servers)
  show "fst (AuthLookupIPAddr e L name) = Panics"
    using s by (simp add: AuthLookupIPAddr_def exchange_def)
  { assume "ReverseAddr L addr = Inr revAddr"
    then show "fst (AuthLookupAddr e L addr) = Panics"
      using s by (simp add: AuthLookupAddr_def single_no_servers) }
  { assume "TLSAName L domain service network = Inr tname"
    then show "fst (AuthLookupTLSA e L service network domain) = Panics"
      using s by (simp add: AuthLookupTLSA_def single_no_servers) }
next
  assume s: "Servers (Cfg e) \<noteq> []"
  show "fst (AuthLookupAddr e L addr) \<noteq> Panics"
    by (cases "ReverseAddr L addr") (simp_all add: AuthLookupAddr_def single_no_panic[OF s])
  show "fst (AuthLookupMX e L name) \<noteq> Panics"
    using single_no_panic[OF s] by (simp add: AuthLookupMX_def)
  show "fst (AuthLookupTXT e L name) \<noteq> Panics"
    using single_no_panic[OF s] by (simp add: AuthLookupTXT_def)
  show "fst (AuthLookupIPAddr e L name) \<noteq> Panics"
    by (rule IPAddr_no_panic[OF s])
  show "fst (AuthLookupTLSA e L service network domain) \<noteq> Panics"
    by (cases "TLSAName L domain service network")
       (simp_all add: AuthLookupTLSA_def single_no_panic[OF s])
qed

theorem nil_response_only_without_servers_witness:
  "Servers (Cfg noServers) = []
   \<and> exchange noServers exampleLib (query ''example.org.'' TypeMX) = (Returns (None, None), [])
   \<and> fst (AuthLookupAddr noServers exampleLib ''192.0.2.7'') = Panics
   \<and> fst (AuthLookupMX noServers exampleLib ''example.org'') = Panics
   \<and> fst (AuthLookupTXT noServers exampleLib ''example.org'') = Panics
   \<and> fst (AuthLookupIPAddr noServers exampleLib ''example.org'') = Panics
   \<and> fst (AuthLookupTLSA noServers exampleLib ''25'' ''tcp'' ''example.org.'') = Panics
   \<and> Servers (Cfg refusingResolver) \<noteq> []
   \<and> fst (AuthLookupAddr refusingResolver exampleLib ''192.0.2.7'') \<noteq> Panics
   \<and> fst (AuthLookupMX refusingResolver exampleLib ''example.org'') \<noteq> Panics
   \<and> fst (AuthLookupTXT refusingResolver exampleLib ''example.org'') \<noteq> Panics
   \<and> fst (AuthLookupIPAddr refusingResolver exampleLib ''example.org'') \<noteq> Panics
   \<and> fst (AuthLookupTLSA refusingResolver exampleLib ''25'' ''tcp'' ''example.org.'') \<noteq> Panics"
proof -
  have n: "Servers (Cfg noServers) = []" by (simp add: noServers_def)
  have s: "Servers (Cfg refusingResolver) \<noteq> []" by (simp add: refusingResolver_def)
  note a = nil_response_only_without_servers[where e = noServers and L = exampleLib
      and msg = "query ''example.org.'' TypeMX"
      and addr = "''192.0.2.7''" and revAddr = "''7.2.0.192.in-addr.arpa.''"
      and name = "''example.org''" and domain = "''example.org.''" and service = "''25''"
      and network = "''tcp''" and tname = "''_25._tcp.example.org.''",
      THEN conjunct1, THEN mp, OF n]
  note b = nil_response_only_without_servers[where e = refusingResolver and L = exampleLib
      and addr = "''192.0.2.7''"
      and name = "''example.org''" and domain = "''example.org.''" and service = "''25''"
      and network = "''tcp''", THEN conjunct2, THEN mp, OF s]
  from a b example_names(1,2) n s show ?thesis by simp
qed

section \<open>Properties of the DKIM check\<close>

lemma has_signed: "Has signedHeader ''DKIM-Signature''"
  by code_simp

lemma has_unsigned: "\<not> Has unsignedHeader ''DKIM-Signature''"
  by code_simp

lemma canonical_examples:
  "CanonicalMIMEHeaderKey ''from'' = ''From''" "CanonicalMIMEHeaderKey ''subject'' = ''Subject''"
  by code_simp+

subsection \<open>A message without a signature\<close>

text \<open>
  C6. If the header has no DKIM-Signature field, the result of \<open>CheckBody\<close> is the
  no-signature action applied to a result with the reason "No DKIM signatures" (code
  550, enhanced code 5.7.20, check name verify_dkim) and one authentication result, of
  value none; the result returned has exactly that one authentication result; and
  the trace of the call is one log line: the body is not opened and the verifier is
  not called.
\<close>

theorem no_signature_branch:
  assumes "\<not> Has header ''DKIM-Signature''"
  shows "fst (CheckBody V c header body) =
           Apply (noSigAction c)
             \<lparr>Reject = False, Quarantine = False,
              Reason = Some (SMTPError 550 (5, 7, 20) ''No DKIM signatures'' ''verify_dkim'' None),
              AuthResult = [\<lparr>Value = ResultNone, DKIMResult.Reason = '''',
                             DKIMResult.Domain = '''', DKIMResult.Identifier = ''''\<rparr>]\<rparr>
       \<and> AuthResult (fst (CheckBody V c header body)) =
           [\<lparr>Value = ResultNone, DKIMResult.Reason = '''',
             DKIMResult.Domain = '''', DKIMResult.Identifier = ''''\<rparr>]
       \<and> snd (CheckBody V c header body) =
           [if FailAction.Reject (noSigAction c) \<or> FailAction.Quarantine (noSigAction c)
            then LogPrintf ''no signatures present'' else LogDebugf ''no signatures present'']
       \<and> BodyOpen \<notin> set (snd (CheckBody V c header body))
       \<and> (\<forall>bytes. VerifyCall bytes \<notin> set (snd (CheckBody V c header body)))"
  using assms by (simp add: CheckBody_def Apply_def)

theorem no_signature_branch_witness:
  "\<not> Has unsignedHeader ''DKIM-Signature''
   \<and> CheckBody (verifierReturning [goodSignature]) rejectingCheck unsignedHeader (Inr ''body'') =
       (\<lparr>Reject = True, Quarantine = False,
         Reason = Some (SMTPError 550 (5, 7, 20) ''No DKIM signatures'' ''verify_dkim'' None),
         AuthResult = [\<lparr>Value = ResultNone, DKIMResult.Reason = '''',
                        DKIMResult.Domain = '''', DKIMResult.Identifier = ''''\<rparr>]\<rparr>,
        [LogPrintf ''no signatures present''])"
  using no_signature_branch[OF has_unsigned, of "verifierReturning [goodSignature]"
      rejectingCheck "Inr ''body''"]
  by (simp add: has_unsigned prod_eq_iff rejectingCheck_def defaultCheck_def Apply_def)

subsection \<open>Signatures whose verification fails\<close>

text \<open>
  In the loop the variable \<open>err\<close> is nil, so neither class of failure is recognised
  and the loop never returns from inside.
\<close>

lemma loop_never_aborts:
  "fst (verifications_loop c None vs goodSigs res log) \<noteq> Inl rejected"
  by (induction vs arbitrary: goodSigs res log) (auto simp: Let_def split: option.splits)

text \<open>
  C2, on the code. One signature whose verification fails with a temporary failure
  (the key is unavailable): with fail-open disabled the check does not return the 421
  rejection; it records the signature as fail and goes on to apply the broken-signature
  action. With fail-open enabled the record is fail as well, not temperror. A
  permanent failure is recorded as fail, not permerror.
\<close>

theorem temporary_failure_is_plain_fail:
  "CheckBody (verifierReturning [goodSignature\<lparr>Err := Some (tempFailError ''key unavailable'')\<rparr>])
       defaultCheck signedHeader (Inr ''body'') =
     (\<lparr>Reject = False, Quarantine = False,
       Reason = Some (SMTPError 550 (5, 7, 20) ''No passing DKIM signatures'' ''verify_dkim'' None),
       AuthResult = [\<lparr>Value = ResultFail, DKIMResult.Reason = ''key unavailable'',
                      DKIMResult.Domain = ''example.org'',
                      DKIMResult.Identifier = ''@example.org''\<rparr>]\<rparr>,
      [BodyOpen, VerifyCall ''(header)body'',
       LogDebugMsg ''bad signature''
         [(''domain'', ''example.org''), (''identifier'', ''@example.org'')]])
   \<and> failOpen defaultCheck = False
   \<and> AuthResult (fst (CheckBody
         (verifierReturning [goodSignature\<lparr>Err := Some (tempFailError ''key unavailable'')\<rparr>])
         (defaultCheck\<lparr>failOpen := True\<rparr>) signedHeader (Inr ''body''))) =
       [\<lparr>Value = ResultFail, DKIMResult.Reason = ''key unavailable'',
         DKIMResult.Domain = ''example.org'', DKIMResult.Identifier = ''@example.org''\<rparr>]
   \<and> AuthResult (fst (CheckBody
         (verifierReturning [goodSignature\<lparr>Err := Some (permFailError ''signature has expired'')\<rparr>])
         defaultCheck signedHeader (Inr ''body''))) =
       [\<lparr>Value = ResultFail, DKIMResult.Reason = ''signature has expired'',
         DKIMResult.Domain = ''example.org'', DKIMResult.Identifier = ''@example.org''\<rparr>]"
  by (simp add: CheckBody_def has_signed verifierReturning_def goodSignature_def defaultCheck_def
      Apply_def TrimPrefix_def)

subsection \<open>Signatures that verify\<close>

text \<open>
  C3, on the code. One signature that verifies and covers From but not the required
  Subject, under a configuration whose broken-signature action is reject: the record
  is permerror with the reason "some header fields are not signed", but the result
  has no reason and is not rejected. The flag of good signatures is set before the two
  policy gates are looked at, so the broken-signature action is not applied.
\<close>

theorem valid_signature_missing_field_counts_as_good:
  "CheckBody (verifierReturning [goodSignature\<lparr>HeaderKeys := [''from'']\<rparr>])
       rejectingCheck signedHeader (Inr ''body'') =
     (\<lparr>Reject = False, Quarantine = False, Reason = None,
       AuthResult = [\<lparr>Value = ResultPermError,
                      DKIMResult.Reason = ''some header fields are not signed'',
                      DKIMResult.Domain = ''example.org'',
                      DKIMResult.Identifier = ''@example.org''\<rparr>]\<rparr>,
      [BodyOpen, VerifyCall ''(header)body'',
       LogDebugMsg ''good signature''
         [(''domain'', ''example.org''), (''identifier'', ''@example.org'')]])
   \<and> FailAction.Reject (brokenSigAction rejectingCheck)"
  by (simp add: CheckBody_def has_signed verifierReturning_def goodSignature_def defaultCheck_def
      rejectingCheck_def canonical_examples)

text \<open>
  C7, on the code. One signature that verifies, covers the required fields and
  declares a body length of 100, under the default configuration, which does not allow
  a body subset: the record is permerror, and its reason is the text "body limit it
  used", which is not the text "body limit is used".
\<close>

theorem body_limit_reason_text:
  "AuthResult (fst (CheckBody (verifierReturning [goodSignature\<lparr>BodyLength := 100\<rparr>])
       defaultCheck signedHeader (Inr ''body''))) =
     [\<lparr>Value = ResultPermError, DKIMResult.Reason = ''body limit it used'',
       DKIMResult.Domain = ''example.org'', DKIMResult.Identifier = ''@example.org''\<rparr>]
   \<and> ''body limit it used'' \<noteq> ''body limit is used''
   \<and> allowBodySubset defaultCheck = False"
  by (simp add: CheckBody_def has_signed verifierReturning_def goodSignature_def defaultCheck_def
      canonical_examples)

end
